theory Spec2Isabelle
  imports Complex_Main "HOL-Library.Sublist"
begin

section \<open>Python strings and values\<close>

text \<open>
  A Python \<open>str\<close> is a sequence of Unicode code points: \<open>len\<close>, slicing and the
  regular expressions of \<open>re\<close> all count code points. A string is therefore a list of
  code points, and an ASCII literal is written \<open>asc ''...''\<close>.
\<close>

type_synonym pystr = "nat list"

definition asc :: "string \<Rightarrow> pystr" where
  "asc = map of_char"

definition nl :: nat where
  "nl = 10"

definition bullet :: nat where
  \<comment> \<open>U+2022, the bullet of the fallback templates and of the red-flag pattern\<close>
  "bullet = 8226"

fun join :: "pystr \<Rightarrow> pystr list \<Rightarrow> pystr" where
  \<comment> \<open>\<open>sep.join(parts)\<close>\<close>
  "join sep [] = []"
| "join sep [p] = p"
| "join sep (p # q # ps) = p @ sep @ join sep (q # ps)"

definition lines :: "pystr list \<Rightarrow> pystr" where
  \<comment> \<open>the lines of a triple-quoted literal, separated by newlines\<close>
  "lines ls = join [nl] ls"

function str_nat :: "nat \<Rightarrow> pystr" where
  "str_nat n = (if n < 10 then [48 + n] else str_nat (n div 10) @ [48 + n mod 10])"
  by pat_completeness auto
termination
  by (relation "measure id") auto

declare str_nat.simps [simp del]

text \<open>
  The JSON scalars that occur as field values of symptom and medication records.
  Floating-point values are left out.
\<close>

datatype scalar = VNone | VBool bool | VInt int | VStr pystr

fun py_str :: "scalar \<Rightarrow> pystr" where
  \<comment> \<open>how an f-string renders a value\<close>
  "py_str VNone = asc ''None''"
| "py_str (VBool b) = (if b then asc ''True'' else asc ''False'')"
| "py_str (VInt i) = (if i < 0 then asc ''-'' @ str_nat (nat (- i)) else str_nat (nat i))"
| "py_str (VStr s) = s"

fun truthy :: "scalar \<Rightarrow> bool" where
  "truthy VNone = False"
| "truthy (VBool b) = b"
| "truthy (VInt i) = (i \<noteq> 0)"
| "truthy (VStr s) = (s \<noteq> [])"

type_synonym pydict = "pystr \<rightharpoonup> scalar"

definition fget :: "pydict \<Rightarrow> string \<Rightarrow> string \<Rightarrow> pystr" where
  \<comment> \<open>\<open>{d.get(key, default)}\<close> inside an f-string\<close>
  "fget d key dflt = (case d (asc key) of None \<Rightarrow> asc dflt | Some v \<Rightarrow> py_str v)"

datatype exn = AttributeError | TypeError | KeyError

text \<open>
  Where the code expects a dictionary (an element of the symptom list, an element of the
  medication list, the chat context) nothing checks that it gets one: the value is a
  dictionary, or a value of another type, on which \<open>.get\<close> raises \<open>AttributeError\<close>.
\<close>

datatype 'a jv = IsDict 'a | NotDict scalar

type_synonym item = "pydict jv"

fun is_dict :: "'a jv \<Rightarrow> bool" where
  "is_dict (IsDict d) = True"
| "is_dict (NotDict v) = False"

fun dicts :: "'a jv list \<Rightarrow> 'a list" where
  "dicts [] = []"
| "dicts (IsDict d # rest) = d # dicts rest"
| "dicts (NotDict v # rest) = dicts rest"

fun render_items :: "(pydict \<Rightarrow> 'b) \<Rightarrow> item list \<Rightarrow> exn + 'b list" where
  \<comment> \<open>the list comprehension \<open>[f(s) for s in items]\<close> where \<open>f\<close> reads \<open>s\<close> with
      \<open>s.get\<close>\<close>
  "render_items f [] = Inr []"
| "render_items f (IsDict d # rest) =
     (case render_items f rest of Inl e \<Rightarrow> Inl e | Inr ls \<Rightarrow> Inr (f d # ls))"
| "render_items f (NotDict v # rest) = Inl AttributeError"

section \<open>Prompt templates (prompts.py)\<close>

definition MEDICAL_DISCLAIMER :: pystr where
  "MEDICAL_DISCLAIMER = lines
    [ [],
      asc ''IMPORTANT MEDICAL DISCLAIMER:'',
      asc ''- This information is for EDUCATIONAL and ORGANIZATIONAL purposes ONLY'',
      asc ''- This is NOT medical advice, diagnosis, or treatment'',
      asc ''- ALWAYS consult a qualified healthcare professional for medical decisions'',
      asc ''- In case of emergency, call emergency services immediately'',
      [] ]"

definition SYSTEM_PROMPT_BASE :: pystr where
  "SYSTEM_PROMPT_BASE = lines
    [ asc ''You are CarePrep AI, a friendly medical intelligence assistant that helps patients:'',
      asc ''1. Prepare for doctor visits by organizing symptom information'',
      asc ''2. Understand medical documents in simple, plain language'',
      [],
      asc ''CRITICAL RULES YOU MUST ALWAYS FOLLOW:'',
      asc ''- You are NOT a doctor and you do NOT provide medical advice'',
      asc ''- You do NOT diagnose conditions'',
      asc ''- You do NOT recommend treatments or medications'',
      asc ''- You ALWAYS suggest consulting healthcare professionals'',
      asc ''- You speak in friendly, calm, non-technical language'',
      asc ''- You help ORGANIZE and UNDERSTAND information, not make medical decisions'',
      [],
      MEDICAL_DISCLAIMER,
      [] ]"

definition symptom_prompt_line :: "pydict \<Rightarrow> pystr" where
  "symptom_prompt_line s =
     asc ''- '' @ fget s ''date'' ''Unknown date'' @ asc '': '' @ fget s ''symptom'' ''Unknown''
     @ asc '' (Severity: '' @ fget s ''severity'' ''N/A'' @ asc ''/10) - Notes: ''
     @ fget s ''notes'' ''None''"

definition symptom_summary_body :: "pystr \<Rightarrow> pystr" where
  "symptom_summary_body symptoms_text = lines
    [ SYSTEM_PROMPT_BASE,
      [],
      asc ''TASK: Create a clear, organized summary of the patient's symptoms that they can share with their doctor.'',
      [],
      asc ''PATIENT'S SYMPTOM LOG:'',
      symptoms_text,
      [],
      asc ''Please provide:'',
      asc ''1. A brief overview of the symptom patterns'',
      asc ''2. Timeline of symptoms (when they started, any changes)'',
      asc ''3. Severity trends (are symptoms getting better, worse, or stable?)'',
      asc ''4. Key points the patient should mention to their doctor'',
      asc ''5. Suggested questions the patient might want to ask'',
      [],
      asc ''Remember: This is to help the patient ORGANIZE information for their doctor, not to provide medical advice.'',
      [],
      asc ''Format the response in a clear, easy-to-read way that the patient can share with their healthcare provider.'' ]"

definition get_symptom_summary_prompt :: "item list \<Rightarrow> exn + pystr" where
  "get_symptom_summary_prompt symptoms =
     (case render_items symptom_prompt_line symptoms of
        Inl e \<Rightarrow> Inl e
      | Inr ls \<Rightarrow> Inr (symptom_summary_body (join [nl] ls)))"

definition get_document_summary_prompt :: "pystr \<Rightarrow> pystr" where
  "get_document_summary_prompt document_text = lines
    [ SYSTEM_PROMPT_BASE,
      [],
      asc ''TASK: Help the patient understand their medical document by explaining it in simple terms.'',
      [],
      asc ''DOCUMENT TEXT:'',
      document_text,
      [],
      asc ''Please provide:'',
      [],
      asc ''1. **PATIENT-FRIENDLY SUMMARY** (3-5 paragraphs)'',
      asc ''   - Explain what the document says in simple, everyday language'',
      asc ''   - Avoid medical jargon - if you must use a medical term, explain it'',
      asc ''   - Focus on what the patient needs to know'',
      [],
      asc ''2. **MEDICATIONS** (if any mentioned)'',
      asc ''   For each medication, provide in JSON-like format:'',
      asc ''   - name: medication name'',
      asc ''   - dosage: how much to take'',
      asc ''   - timing: when to take it'',
      asc ''   - notes: any special instructions'',
      [],
      asc ''3. **FOLLOW-UP ACTIONS** (if any)'',
      asc ''   List any follow-up appointments, tests, or actions mentioned:'',
      asc ''   - action: what needs to be done'',
      asc ''   - timing: when it should be done'',
      [],
      asc ''4. **RED FLAGS** (warning signs to watch for)'',
      asc ''   List any symptoms or situations mentioned that would require immediate medical attention.'',
      asc ''   These are for AWARENESS only - always call emergency services for actual emergencies.'',
      [],
      asc ''Format your response as structured sections that can be easily parsed.'' ]"

text \<open>
  The chat context is read at the keys \<open>symptoms\<close> and \<open>summary\<close>. Nothing checks
  what is stored there, so an entry is absent, a list or dictionary as expected, or a JSON
  scalar in its place.
\<close>

datatype 'a entry = Absent | Present 'a | Mistyped scalar

record visit_summary =
  vs_patientSummary :: "scalar option"
  vs_medications :: "item list entry"
  vs_other_keys :: bool

definition dict_nonempty :: "visit_summary \<Rightarrow> bool" where
  \<comment> \<open>\<open>if summary:\<close> on a dictionary\<close>
  "dict_nonempty s \<longleftrightarrow>
     vs_patientSummary s \<noteq> None \<or> vs_medications s \<noteq> Absent \<or> vs_other_keys s"

record chat_context =
  ctx_symptoms :: "item list entry"
  ctx_summary :: "visit_summary entry"

definition chat_symptom_line :: "pydict \<Rightarrow> pystr" where
  "chat_symptom_line s =
     asc ''- '' @ fget s ''symptom'' ''Unknown'' @ asc '' (Severity: ''
     @ fget s ''severity'' ''N/A'' @ asc ''/10) on '' @ fget s ''date'' ''Unknown date''"

definition pre_visit_body :: "pystr \<Rightarrow> pystr \<Rightarrow> pystr" where
  "pre_visit_body message symptoms_context = lines
    [ SYSTEM_PROMPT_BASE,
      [],
      asc ''MODE: PRE-VISIT PREPARATION'',
      asc ''You are helping the patient prepare for their upcoming doctor's appointment.'',
      [],
      (if symptoms_context \<noteq> [] then symptoms_context else asc ''No symptoms logged yet.''),
      [],
      asc ''PATIENT'S QUESTION: '' @ message,
      [],
      asc ''Provide a helpful, friendly response that:'',
      asc ''1. Helps them organize their thoughts for the doctor visit'',
      asc ''2. Suggests what information might be useful to share'',
      asc ''3. Recommends questions they might want to ask'',
      asc ''4. Reminds them that their doctor is the best source for medical advice'',
      [],
      asc ''Keep your response conversational and supportive. Do NOT provide medical advice or diagnoses.'',
      [],
      asc ''End your response with a brief reminder to discuss concerns with their healthcare provider.'' ]"

fun get_pre_visit_chat_prompt :: "pystr \<Rightarrow> item list entry \<Rightarrow> exn + pystr" where
  "get_pre_visit_chat_prompt message Absent = Inr (pre_visit_body message [])"
| "get_pre_visit_chat_prompt message (Present symptoms) =
     (if symptoms \<noteq> []
      then (case render_items chat_symptom_line (take 10 symptoms) of
              Inl e \<Rightarrow> Inl e
            | Inr ls \<Rightarrow>
                Inr (pre_visit_body message
                       (asc ''Patient's recent symptoms:'' @ [nl] @ join [nl] ls)))
      else Inr (pre_visit_body message []))"
| "get_pre_visit_chat_prompt message (Mistyped v) =
     (if truthy v
      then (case v of VStr _ \<Rightarrow> Inl AttributeError | _ \<Rightarrow> Inl TypeError)
      else Inr (pre_visit_body message []))"

definition post_visit_body :: "pystr \<Rightarrow> pystr \<Rightarrow> pystr" where
  "post_visit_body message summary_context = lines
    [ SYSTEM_PROMPT_BASE,
      [],
      asc ''MODE: POST-VISIT UNDERSTANDING'',
      asc ''You are helping the patient understand their recent medical visit and documents.'',
      [],
      (if summary_context \<noteq> [] then summary_context else asc ''No visit summary available.''),
      [],
      asc ''PATIENT'S QUESTION: '' @ message,
      [],
      asc ''Provide a helpful, friendly response that:'',
      asc ''1. Helps them understand medical terms in simple language'',
      asc ''2. Clarifies any confusing information from their visit'',
      asc ''3. Helps them remember important follow-up actions'',
      asc ''4. Encourages them to contact their doctor if they have medical concerns'',
      [],
      asc ''Keep your response conversational and reassuring. Do NOT provide medical advice.'',
      [],
      asc ''If they ask about changing medications or treatments, remind them to consult their healthcare provider.'',
      [],
      asc ''End your response with a brief reminder that you're here to help them understand, not to provide medical advice.'' ]"

definition medication_name :: "pydict \<Rightarrow> scalar" where
  \<comment> \<open>\<open>m.get('name', 'Unknown')\<close>\<close>
  "medication_name m = (case m (asc ''name'') of None \<Rightarrow> VStr (asc ''Unknown'') | Some v \<Rightarrow> v)"

fun join_names :: "scalar list \<Rightarrow> exn + pystr list" where
  \<comment> \<open>what \<open>', '.join\<close> accepts: every item must be a string\<close>
  "join_names [] = Inr []"
| "join_names (VStr n # rest) =
     (case join_names rest of Inl e \<Rightarrow> Inl e | Inr ns \<Rightarrow> Inr (n # ns))"
| "join_names (_ # rest) = Inl TypeError"

definition medication_names :: "item list \<Rightarrow> exn + pystr list" where
  \<comment> \<open>the comprehension \<open>[m.get('name', 'Unknown') for m in ...]\<close> runs first, then the join\<close>
  "medication_names ms =
     (case render_items medication_name ms of Inl e \<Rightarrow> Inl e | Inr vs \<Rightarrow> join_names vs)"

fun summary_medications :: "item list entry \<Rightarrow> exn + pystr list" where
  \<comment> \<open>iterating \<open>summary.get('medications', [])\<close>\<close>
  "summary_medications Absent = Inr []"
| "summary_medications (Present ms) = medication_names ms"
| "summary_medications (Mistyped (VStr s)) = (if s = [] then Inr [] else Inl AttributeError)"
| "summary_medications (Mistyped _) = Inl TypeError"

definition summary_context_text :: "visit_summary \<Rightarrow> exn + pystr" where
  "summary_context_text s =
     (case summary_medications (vs_medications s) of
        Inl e \<Rightarrow> Inl e
      | Inr names \<Rightarrow> Inr (lines
          [ [],
            asc ''Recent visit summary:'',
            (case vs_patientSummary s of None \<Rightarrow> asc ''No summary available'' | Some v \<Rightarrow> py_str v),
            [],
            asc ''Medications: '' @ join (asc '', '') names,
            [] ]))"

fun get_post_visit_chat_prompt :: "pystr \<Rightarrow> visit_summary entry \<Rightarrow> exn + pystr" where
  "get_post_visit_chat_prompt message Absent = Inr (post_visit_body message [])"
| "get_post_visit_chat_prompt message (Present s) =
     (if dict_nonempty s
      then (case summary_context_text s of
              Inl e \<Rightarrow> Inl e
            | Inr c \<Rightarrow> Inr (post_visit_body message c))
      else Inr (post_visit_body message []))"
| "get_post_visit_chat_prompt message (Mistyped v) =
     (if truthy v then Inl AttributeError else Inr (post_visit_body message []))"

definition get_ocr_cleanup_prompt :: "pystr \<Rightarrow> pystr" where
  "get_ocr_cleanup_prompt raw_text = lines
    [ asc ''Clean up the following OCR-extracted text from a medical document.'',
      asc ''Fix obvious OCR errors, correct spacing issues, and organize the text into readable paragraphs.'',
      asc ''Keep all medical information intact - do not add, remove, or change medical details.'',
      [],
      asc ''RAW OCR TEXT:'',
      raw_text,
      [],
      asc ''Provide the cleaned, readable version of the text.'' ]"

section \<open>Regular expressions, as the \<open>re\<close> module matches them\<close>

text \<open>
  The patterns of \<open>_parse_document_summary\<close> are built from literals, character classes,
  greedy stars and lazy plusses over a class, optional groups, one capture group, a
  lookahead and \<open>$\<close>. The matcher below is a backtracking matcher in continuation-passing
  style: the continuation is the rest of the pattern, and the first alternative whose
  continuation succeeds wins, which is the order in which \<open>re\<close> tries them.
\<close>

definition is_space :: "nat \<Rightarrow> bool" where
  \<comment> \<open>Unicode whitespace, the characters of \<open>\s\<close> and of \<open>str.strip()\<close>\<close>
  "is_space c \<longleftrightarrow>
     c \<in> set [9, 10, 11, 12, 13, 28, 29, 30, 31, 32, 133, 160, 5760, 8232, 8233, 8239, 8287, 12288]
     \<or> (8192 \<le> c \<and> c \<le> 8202)"

definition strip :: "pystr \<Rightarrow> pystr" where
  "strip s = rev (dropWhile is_space (rev (dropWhile is_space s)))"

definition lower :: "nat \<Rightarrow> nat" where
  \<comment> \<open>the simple lowercase mapping, on the code points whose lowercase is an ASCII letter\<close>
  "lower t = (if 65 \<le> t \<and> t \<le> 90 then t + 32
              else if t = 304 then 105 else if t = 8490 then 107 else t)"

definition ci :: "nat \<Rightarrow> nat \<Rightarrow> bool" where
  \<comment> \<open>\<open>ci c t\<close>: under \<open>re.IGNORECASE\<close> the ASCII pattern character \<open>c\<close> matches the text
      character \<open>t\<close>; dotless i and long s are the two extra equivalences of \<open>re\<close>\<close>
  "ci c t \<longleftrightarrow> lower t = lower c \<or> (lower c = 105 \<and> t = 305) \<or> (lower c = 115 \<and> t = 383)"

datatype re =
    Chr "nat \<Rightarrow> bool"
  | Eps
  | Seq re re
  | Alt re re
  | Star "nat \<Rightarrow> bool"
  | LazyPlus "nat \<Rightarrow> bool"
  | Opt re
  | Group re
  | Ahead re
  | Eos

text \<open>A match state is the text still to be read and the text of capture group 1.\<close>

type_synonym mstate = "pystr \<times> pystr option"

fun greedy_star :: "(nat \<Rightarrow> bool) \<Rightarrow> pystr \<Rightarrow> (pystr \<Rightarrow> mstate option) \<Rightarrow> mstate option" where
  "greedy_star p [] k = k []"
| "greedy_star p (c # s) k =
     (if p c then (case greedy_star p s k of Some m \<Rightarrow> Some m | None \<Rightarrow> k (c # s))
      else k (c # s))"

fun lazy_plus :: "(nat \<Rightarrow> bool) \<Rightarrow> pystr \<Rightarrow> (pystr \<Rightarrow> mstate option) \<Rightarrow> mstate option" where
  "lazy_plus p [] k = None"
| "lazy_plus p (c # s) k =
     (if p c then (case k s of Some m \<Rightarrow> Some m | None \<Rightarrow> lazy_plus p s k) else None)"

fun accept :: "pystr \<Rightarrow> pystr option \<Rightarrow> mstate option" where
  "accept s g = Some (s, g)"

fun matcher :: "re \<Rightarrow> pystr \<Rightarrow> pystr option \<Rightarrow> (pystr \<Rightarrow> pystr option \<Rightarrow> mstate option)
                 \<Rightarrow> mstate option" where
  "matcher (Chr p) s g k = (case s of [] \<Rightarrow> None | c # s' \<Rightarrow> if p c then k s' g else None)"
| "matcher Eps s g k = k s g"
| "matcher (Seq a b) s g k = matcher a s g (\<lambda>s' g'. matcher b s' g' k)"
| "matcher (Alt a b) s g k =
     (case matcher a s g k of Some m \<Rightarrow> Some m | None \<Rightarrow> matcher b s g k)"
| "matcher (Star p) s g k = greedy_star p s (\<lambda>s'. k s' g)"
| "matcher (LazyPlus p) s g k = lazy_plus p s (\<lambda>s'. k s' g)"
| "matcher (Opt a) s g k = (case matcher a s g k of Some m \<Rightarrow> Some m | None \<Rightarrow> k s g)"
| "matcher (Group a) s g k =
     matcher a s g (\<lambda>s' _. k s' (Some (take (length s - length s') s)))"
| "matcher (Ahead a) s g k = (case matcher a s g accept of None \<Rightarrow> None | Some _ \<Rightarrow> k s g)"
| "matcher Eos s g k = (if s = [] \<or> s = [nl] then k s g else None)"

fun lit :: "pystr \<Rightarrow> re" where
  \<comment> \<open>a literal under \<open>re.IGNORECASE\<close>\<close>
  "lit [] = Eps"
| "lit (c # cs) = Seq (Chr (ci c)) (lit cs)"

fun seqs :: "re list \<Rightarrow> re" where
  "seqs [] = Eps"
| "seqs (r # rs) = Seq r (seqs rs)"

fun search :: "re \<Rightarrow> pystr \<Rightarrow> mstate option" where
  \<comment> \<open>\<open>re.search\<close>: the match at the leftmost position that has one\<close>
  "search r [] = matcher r [] None accept"
| "search r (c # s) =
     (case matcher r (c # s) None accept of Some m \<Rightarrow> Some m | None \<Rightarrow> search r s)"

definition group1 :: "mstate \<Rightarrow> pystr" where
  "group1 m = (case snd m of None \<Rightarrow> [] | Some g \<Rightarrow> g)"

text \<open>
  \<open>re.findall\<close> collects group 1 of the successive non-overlapping matches. After an empty
  match the next match at the same position must be non-empty (\<open>must_advance\<close>).
\<close>

function findall_from :: "re \<Rightarrow> bool \<Rightarrow> pystr \<Rightarrow> pystr list" where
  "findall_from r must_advance [] =
     (case matcher r [] None (\<lambda>s' g. if must_advance then None else Some (s', g)) of
        Some m \<Rightarrow> [group1 m]
      | None \<Rightarrow> [])"
| "findall_from r must_advance (c # s) =
     (case matcher r (c # s) None
             (\<lambda>s' g. if must_advance \<and> length s' = Suc (length s) then None else Some (s', g)) of
        Some m \<Rightarrow>
          (if length (fst m) < Suc (length s) then group1 m # findall_from r False (fst m)
           else if \<not> must_advance then group1 m # findall_from r True (c # s)
           else [])
      | None \<Rightarrow> findall_from r False s)"
  by pat_completeness auto
termination
  by (relation "measure (\<lambda>(r, b, s). 2 * length s + (if b then 0 else 1))") auto

definition findall :: "re \<Rightarrow> pystr \<Rightarrow> pystr list" where
  "findall r s = findall_from r False s"

definition any :: "nat \<Rightarrow> bool" where
  \<comment> \<open>\<open>.\<close> under \<open>re.DOTALL\<close>\<close>
  "any c = True"

definition dot :: "nat \<Rightarrow> bool" where
  \<comment> \<open>\<open>.\<close> without \<open>re.DOTALL\<close>\<close>
  "dot c \<longleftrightarrow> c \<noteq> nl"

definition colon_space :: "nat \<Rightarrow> bool" where
  \<comment> \<open>\<open>[:\s]\<close>\<close>
  "colon_space c \<longleftrightarrow> c = 58 \<or> is_space c"

definition line_end :: re where
  \<comment> \<open>\<open>(?:\n|$)\<close>\<close>
  "line_end = Alt (Chr (\<lambda>c. c = nl)) Eos"

section \<open>The structured extractor (\<open>_parse_document_summary\<close>)\<close>

definition summary_re :: re where
  "summary_re = seqs
     [ lit (asc ''**PATIENT-FRIENDLY SUMMARY**''), Star colon_space, Group (LazyPlus any),
       Ahead (Alt (lit (asc ''**MEDICATIONS**''))
             (Alt (lit (asc ''**FOLLOW-UP'')) (Alt (lit (asc ''**RED FLAGS'')) Eos))) ]"

definition meds_re :: re where
  "meds_re = seqs
     [ lit (asc ''**MEDICATIONS**''), Star colon_space, Group (LazyPlus any),
       Ahead (Alt (lit (asc ''**FOLLOW-UP'')) (Alt (lit (asc ''**RED FLAGS'')) Eos)) ]"

definition med_entry_re :: re where
  "med_entry_re = seqs
     [ lit (asc ''-''), Star is_space, lit (asc ''name:''), Star is_space,
       Group (LazyPlus dot), line_end ]"

definition followup_re :: re where
  "followup_re = seqs
     [ lit (asc ''**FOLLOW-UP ''), Opt (Seq (lit (asc ''ACTION'')) (Opt (lit (asc ''S'')))),
       lit (asc ''**''), Star colon_space, Group (LazyPlus any),
       Ahead (Alt (lit (asc ''**RED FLAGS'')) Eos) ]"

definition followup_item_re :: re where
  "followup_item_re = seqs
     [ lit (asc ''-''), Star is_space, lit (asc ''action:''), Star is_space,
       Group (LazyPlus dot), line_end ]"

definition redflags_re :: re where
  "redflags_re = seqs
     [ lit (asc ''**RED FLAGS**''), Star colon_space, Group (LazyPlus any), Eos ]"

definition redflag_item_re :: re where
  "redflag_item_re = seqs
     [ Chr (\<lambda>c. c = 45 \<or> c = bullet), Star is_space, Group (LazyPlus dot), line_end ]"

record medication =
  med_name :: pystr
  med_dosage :: pystr
  med_timing :: pystr
  med_notes :: pystr

record follow_up =
  fu_action :: pystr
  fu_timing :: pystr

record parsed_summary =
  ps_patientSummary :: pystr
  ps_medications :: "medication list"
  ps_followUps :: "follow_up list"
  ps_redFlags :: "pystr list"

definition new_medication :: "pystr \<Rightarrow> medication" where
  "new_medication med =
     \<lparr> med_name = strip med, med_dosage = asc ''As prescribed'',
       med_timing = asc ''Follow doctor instructions'', med_notes = [] \<rparr>"

definition new_follow_up :: "pystr \<Rightarrow> follow_up" where
  "new_follow_up item = \<lparr> fu_action = strip item, fu_timing = asc ''As scheduled'' \<rparr>"

text \<open>
  Every call inside the \<open>try\<close> block of \<open>_parse_document_summary\<close> is total on strings
  (\<open>re.search\<close>, \<open>re.findall\<close>, \<open>group\<close>, \<open>strip\<close>, slicing), so the handler is never
  entered and the function is modelled as a total function that returns the dictionary.
\<close>

definition initial_result :: parsed_summary where
  "initial_result =
     \<lparr> ps_patientSummary = [], ps_medications = [], ps_followUps = [], ps_redFlags = [] \<rparr>"

definition extract_summary :: "pystr \<Rightarrow> parsed_summary \<Rightarrow> parsed_summary" where
  "extract_summary content result =
     (case search summary_re content of
        Some summary_match \<Rightarrow> result\<lparr>ps_patientSummary := strip (group1 summary_match)\<rparr>
      | None \<Rightarrow>
          result\<lparr>ps_patientSummary :=
            (if length content > 1500 then take 1500 content else content)\<rparr>)"

definition extract_medications :: "pystr \<Rightarrow> parsed_summary \<Rightarrow> parsed_summary" where
  "extract_medications content result =
     (case search meds_re content of
        Some meds_match \<Rightarrow>
          foldl (\<lambda>res med. res\<lparr>ps_medications := ps_medications res @ [new_medication med]\<rparr>)
            result (findall med_entry_re (group1 meds_match))
      | None \<Rightarrow> result)"

definition extract_followups :: "pystr \<Rightarrow> parsed_summary \<Rightarrow> parsed_summary" where
  "extract_followups content result =
     (case search followup_re content of
        Some followup_match \<Rightarrow>
          foldl (\<lambda>res item. res\<lparr>ps_followUps := ps_followUps res @ [new_follow_up item]\<rparr>)
            result (findall followup_item_re (group1 followup_match))
      | None \<Rightarrow> result)"

definition extract_redflags :: "pystr \<Rightarrow> parsed_summary \<Rightarrow> parsed_summary" where
  "extract_redflags content result =
     (case search redflags_re content of
        Some redflags_match \<Rightarrow>
          result\<lparr>ps_redFlags :=
            map strip (filter (\<lambda>item. strip item \<noteq> [])
                         (findall redflag_item_re (group1 redflags_match)))\<rparr>
      | None \<Rightarrow> result)"

definition parse_document_summary :: "pystr \<Rightarrow> parsed_summary" where
  "parse_document_summary content =
     extract_redflags content
       (extract_followups content
         (extract_medications content
           (extract_summary content initial_result)))"



section \<open>The completion client (\<open>_make_request\<close>)\<close>

record request =
  req_content :: pystr
  req_temperature :: real
  req_max_tokens :: nat

text \<open>
  What one \<open>requests.post\<close> can do: answer 429, raise \<open>Timeout\<close>, raise another
  \<open>RequestException\<close> (a transport error, or \<open>raise_for_status\<close> on another error
  status), answer with no choice, answer with a first choice whose content is a string or
  null, or make the code raise an exception that \<open>_make_request\<close> does not catch (a
  choice without \<open>message\<close>, for instance). The endpoint is a function from the request
  and the attempt index to such an outcome.
\<close>

datatype outcome =
    RateLimited
  | TimedOut
  | RequestError
  | NoChoices
  | Content "pystr option"
  | Fault exn

type_synonym remote = "request \<Rightarrow> nat \<Rightarrow> outcome"

datatype event = Post request | Sleep nat

definition max_retries :: nat where
  "max_retries = 3"

definition retry_delay :: nat where
  "retry_delay = 1"

fun attempts :: "remote \<Rightarrow> request \<Rightarrow> nat list \<Rightarrow> (exn + pystr option) \<times> event list" where
  \<comment> \<open>the body of \<open>for attempt in range(max_retries)\<close>, with the trace of what it did\<close>
  "attempts remote req [] = (Inr None, [])"
| "attempts remote req (attempt # rest) =
     (case remote req attempt of
        RateLimited \<Rightarrow>
          (case attempts remote req rest of
             (r, t) \<Rightarrow> (r, Post req # Sleep (retry_delay * 2 ^ attempt) # t))
      | Content c \<Rightarrow> (Inr c, [Post req])
      | NoChoices \<Rightarrow> (Inr None, [Post req])
      | TimedOut \<Rightarrow>
          (if attempt < max_retries - 1
           then (case attempts remote req rest of
                   (r, t) \<Rightarrow> (r, Post req # Sleep retry_delay # t))
           else (Inr None, [Post req]))
      | RequestError \<Rightarrow>
          (if attempt < max_retries - 1
           then (case attempts remote req rest of
                   (r, t) \<Rightarrow> (r, Post req # Sleep retry_delay # t))
           else (Inr None, [Post req]))
      | Fault e \<Rightarrow> (Inl e, [Post req]))"

definition make_request :: "bool \<Rightarrow> remote \<Rightarrow> request \<Rightarrow> (exn + pystr option) \<times> event list" where
  "make_request available remote req =
     (if \<not> available then (Inr None, []) else attempts remote req [0..<max_retries])"

definition posts :: "event list \<Rightarrow> nat" where
  "posts t = length (filter (\<lambda>e. case e of Post _ \<Rightarrow> True | Sleep _ \<Rightarrow> False) t)"

text \<open>
  The retry policy in the words of the specification: a 429, a timeout and a transport
  error are retried; the wait after a 429 is the base delay times two to the attempt
  index, the wait after the other two is the base delay.
\<close>

definition retryable :: "outcome \<Rightarrow> bool" where
  "retryable out =
     (case out of RateLimited \<Rightarrow> True | TimedOut \<Rightarrow> True | RequestError \<Rightarrow> True | _ \<Rightarrow> False)"

definition backoff_wait :: "outcome \<Rightarrow> nat \<Rightarrow> nat" where
  "backoff_wait out attempt = (case out of RateLimited \<Rightarrow> 1 * 2 ^ attempt | _ \<Rightarrow> 1)"

section \<open>The fallback synthesizer\<close>

record symptom_result =
  sr_success :: bool
  sr_summary :: pystr

record document_result =
  dr_success :: bool
  dr_processedText :: pystr
  dr_doctorSummary :: pystr
  dr_patientSummary :: pystr
  dr_medications :: "medication list"
  dr_followUps :: "follow_up list"
  dr_redFlags :: "pystr list"

record chat_result =
  cr_success :: bool
  cr_response :: pystr

definition fallback_symptom_line :: "pydict \<Rightarrow> pystr" where
  "fallback_symptom_line s =
     bullet # asc '' '' @ fget s ''date'' ''Unknown date'' @ asc '': ''
     @ fget s ''symptom'' ''Unknown symptom'' @ asc '' (Severity: ''
     @ fget s ''severity'' ''N/A'' @ asc ''/10)''"

definition symptom_fallback_text :: "nat \<Rightarrow> pystr \<Rightarrow> pystr" where
  "symptom_fallback_text count symptom_list = lines
    [ asc ''**Symptom Summary for Your Doctor**'',
      [],
      asc ''You have logged '' @ str_nat count
        @ asc '' symptom(s). Here's a summary to share with your healthcare provider:'',
      [],
      symptom_list,
      [],
      asc ''**Next Steps:**'',
      bullet # asc '' Discuss these symptoms with your doctor'',
      bullet # asc '' Mention any patterns you've noticed'',
      bullet # asc '' Ask about possible causes and treatments'',
      [],
      MEDICAL_DISCLAIMER ]"

definition fallback_symptom_summary :: "item list \<Rightarrow> exn + symptom_result" where
  "fallback_symptom_summary symptoms =
     (case render_items fallback_symptom_line (take 10 symptoms) of
        Inl e \<Rightarrow> Inl e
      | Inr ls \<Rightarrow>
          Inr \<lparr> sr_success = True,
                sr_summary = symptom_fallback_text (length symptoms) (join [nl] ls) \<rparr>)"

definition fallback_document_summary :: "pystr \<Rightarrow> document_result" where
  "fallback_document_summary document_text =
     (let preview = (if length document_text > 500 then take 500 document_text @ asc ''...''
                     else document_text) in
      \<lparr> dr_success = True,
        dr_processedText = document_text,
        dr_doctorSummary = preview,
        dr_patientSummary = lines
          [ asc ''Your document has been processed. Here's a preview:'',
            [],
            preview,
            [],
            asc ''For a detailed explanation of this document, please consult with your healthcare provider.'',
            [],
            MEDICAL_DISCLAIMER ],
        dr_medications = [],
        dr_followUps =
          [ \<lparr> fu_action = asc ''Discuss this document with your healthcare provider'',
              fu_timing = asc ''At your next appointment'' \<rparr> ],
        dr_redFlags = [ asc ''Contact your doctor if you have questions about this document'' ] \<rparr>)"

definition pre_visit_fallback_text :: "pystr \<Rightarrow> pystr" where
  "pre_visit_fallback_text message = lines
    [ asc ''I understand you have a question about preparing for your doctor visit.'',
      [],
      asc ''While I can't provide specific advice right now, here are some general tips:'',
      [],
      asc ''1. **Write down your symptoms** - Note when they started, how often they occur, and their severity'',
      asc ''2. **List your medications** - Include supplements and over-the-counter drugs'',
      asc ''3. **Prepare your questions** - Write them down so you don't forget'',
      asc ''4. **Bring relevant documents** - Test results, previous records, etc.'',
      [],
      asc ''Your question was: \"'' @ message @ asc ''\"'',
      [],
      asc ''Please discuss this with your healthcare provider during your visit.'',
      [],
      MEDICAL_DISCLAIMER ]"

definition post_visit_fallback_text :: "pystr \<Rightarrow> pystr" where
  "post_visit_fallback_text message = lines
    [ asc ''I understand you have a question about your visit notes.'',
      [],
      asc ''While I can't process your specific question right now, here's general guidance:'',
      [],
      asc ''1. **Review your documents** - Read through them carefully'',
      asc ''2. **Note any unclear terms** - Ask your doctor to explain'',
      asc ''3. **Follow medication instructions** - Take as prescribed'',
      asc ''4. **Schedule follow-ups** - As recommended by your doctor'',
      [],
      asc ''Your question was: \"'' @ message @ asc ''\"'',
      [],
      asc ''For specific questions about your treatment, please contact your healthcare provider.'',
      [],
      MEDICAL_DISCLAIMER ]"

definition fallback_chat_response :: "pystr \<Rightarrow> pystr \<Rightarrow> chat_result" where
  "fallback_chat_response message mode =
     \<lparr> cr_success = True,
       cr_response = (if mode = asc ''pre_visit'' then pre_visit_fallback_text message
                      else post_visit_fallback_text message) \<rparr>"

section \<open>The operations of \<open>AIProcessor\<close>\<close>

text \<open>
  Each operation takes the availability flag and the endpoint, and returns its result (or
  the exception that leaves it) together with the trace of posts and sleeps it caused. The
  fallback of the symptom summary is called outside the \<open>try\<close> block and inside its
  handler, so an exception it raises leaves the operation.
\<close>

definition generate_symptom_summary ::
  "bool \<Rightarrow> remote \<Rightarrow> item list \<Rightarrow> (exn + symptom_result) \<times> event list" where
  "generate_symptom_summary available remote symptoms =
     (if \<not> available then (fallback_symptom_summary symptoms, [])
      else
        (case get_symptom_summary_prompt symptoms of
           Inl e \<Rightarrow> (fallback_symptom_summary symptoms, [])
         | Inr prompt \<Rightarrow>
             (case make_request available remote
                     \<lparr> req_content = prompt, req_temperature = 7 / 10,
                       req_max_tokens = 1500 \<rparr> of
                (Inr (Some content), t) \<Rightarrow>
                  (if content \<noteq> []
                   then (Inr \<lparr> sr_success = True, sr_summary = content \<rparr>, t)
                   else (fallback_symptom_summary symptoms, t))
              | (Inr None, t) \<Rightarrow> (fallback_symptom_summary symptoms, t)
              | (Inl e, t) \<Rightarrow> (fallback_symptom_summary symptoms, t))))"

definition doctor_preview :: "pystr \<Rightarrow> pystr" where
  \<comment> \<open>\<open>document_text[:1000] + '...' if len(document_text) > 1000 else document_text\<close>\<close>
  "doctor_preview document_text =
     (if length document_text > 1000 then take 1000 document_text @ asc ''...''
      else document_text)"

definition summarize_document ::
  "bool \<Rightarrow> remote \<Rightarrow> pystr \<Rightarrow> (exn + document_result) \<times> event list" where
  "summarize_document available remote document_text =
     (if \<not> available then (Inr (fallback_document_summary document_text), [])
      else
        (case make_request available remote
                \<lparr> req_content = get_document_summary_prompt document_text,
                  req_temperature = 5 / 10, req_max_tokens = 2000 \<rparr> of
           (Inr (Some content), t) \<Rightarrow>
             (if content \<noteq> []
              then (let parsed = parse_document_summary content in
                    (Inr \<lparr> dr_success = True,
                           dr_processedText = document_text,
                           dr_doctorSummary = doctor_preview document_text,
                           dr_patientSummary = ps_patientSummary parsed,
                           dr_medications = ps_medications parsed,
                           dr_followUps = ps_followUps parsed,
                           dr_redFlags = ps_redFlags parsed \<rparr>, t))
              else (Inr (fallback_document_summary document_text), t))
         | (Inr None, t) \<Rightarrow> (Inr (fallback_document_summary document_text), t)
         | (Inl e, t) \<Rightarrow> (Inr (fallback_document_summary document_text), t)))"

fun chat_prompt :: "pystr \<Rightarrow> pystr \<Rightarrow> chat_context jv \<Rightarrow> exn + pystr" where
  \<comment> \<open>the prompt that \<open>chat\<close> builds inside its \<open>try\<close> block; \<open>context.get\<close> comes first\<close>
  "chat_prompt message mode (IsDict ctx) =
     (if mode = asc ''pre_visit''
      then get_pre_visit_chat_prompt message (ctx_symptoms ctx)
      else get_post_visit_chat_prompt message (ctx_summary ctx))"
| "chat_prompt message mode (NotDict v) = Inl AttributeError"

definition chat ::
  "bool \<Rightarrow> remote \<Rightarrow> pystr \<Rightarrow> pystr \<Rightarrow> chat_context jv
     \<Rightarrow> (exn + chat_result) \<times> event list" where
  "chat available remote message mode ctx =
     (if \<not> available then (Inr (fallback_chat_response message mode), [])
      else
        (case chat_prompt message mode ctx of
           Inl e \<Rightarrow> (Inr (fallback_chat_response message mode), [])
         | Inr prompt \<Rightarrow>
             (case make_request available remote
                     \<lparr> req_content = prompt, req_temperature = 7 / 10, req_max_tokens = 800 \<rparr> of
                (Inr (Some content), t) \<Rightarrow>
                  (if content \<noteq> []
                   then (Inr \<lparr> cr_success = True, cr_response = content \<rparr>, t)
                   else (Inr (fallback_chat_response message mode), t))
              | (Inr None, t) \<Rightarrow> (Inr (fallback_chat_response message mode), t)
              | (Inl e, t) \<Rightarrow> (Inr (fallback_chat_response message mode), t))))"

definition cleanup_ocr_text :: "bool \<Rightarrow> remote \<Rightarrow> pystr \<Rightarrow> pystr \<times> event list" where
  "cleanup_ocr_text available remote raw_text =
     (if \<not> available \<or> length raw_text < 50 then (raw_text, [])
      else
        (case make_request available remote
                \<lparr> req_content = get_ocr_cleanup_prompt raw_text,
                  req_temperature = 3 / 10, req_max_tokens = 2000 \<rparr> of
           (Inr (Some content), t) \<Rightarrow> (if content \<noteq> [] then (content, t) else (raw_text, t))
         | (Inr None, t) \<Rightarrow> (raw_text, t)
         | (Inl e, t) \<Rightarrow> (raw_text, t)))"

section \<open>Sample inputs\<close>

definition always_reply :: "pystr \<Rightarrow> remote" where
  \<comment> \<open>an endpoint that answers every post with the same text\<close>
  "always_reply text req attempt = Content (Some text)"

definition sample_ocr_text :: pystr where
  "sample_ocr_text = asc ''Patient: John Doe. Rx: Amoxicillin 500mg, three times daily.''"

text \<open>
  A symptom log with one record, a chat context that holds a visit summary, and one whose
  summary entry is a number.
\<close>

definition headache_log :: "item list" where
  "headache_log =
     [ IsDict [asc ''date'' \<mapsto> VStr (asc ''2024-01-05''), asc ''symptom'' \<mapsto> VStr (asc ''headache''),
               asc ''severity'' \<mapsto> VInt 7] ]"

definition cold_summary_context :: chat_context where
  "cold_summary_context =
     \<lparr> ctx_symptoms = Absent,
       ctx_summary = Present \<lparr> vs_patientSummary = Some (VStr (asc ''You have a mild cold.'')),
                                vs_medications = Present [IsDict [asc ''name'' \<mapsto> VStr (asc ''Ibuprofen'')]],
                                vs_other_keys = False \<rparr> \<rparr>"

definition broken_summary_context :: chat_context where
  "broken_summary_context = \<lparr> ctx_symptoms = Absent, ctx_summary = Mistyped (VInt 5) \<rparr>"

text \<open>
  The reply of the specification's concrete scenario, the same reply without its
  medications section, and a reply with no section label at all.
\<close>

definition mild_cold_reply :: pystr where
  "mild_cold_reply =
     asc ''**PATIENT-FRIENDLY SUMMARY** You have a mild cold.\<newline>**MEDICATIONS**\<newline>- name: Ibuprofen\<newline>**FOLLOW-UP ACTIONS**\<newline>- action: Rest for 3 days\<newline>**RED FLAGS**\<newline>- Fever above 103''
     @ [176] @ asc ''F''"



section \<open>The retry policy of the completion client\<close>

lemma upt3: "[0..<3] = [0, 1, 2::nat]"
proof -
  have "[0..<3] = [0, Suc 0, Suc (Suc 0)]"
    by (simp add: numeral_3_eq_3 upt_conv_Cons)
  then show ?thesis by (simp add: numeral_2_eq_2)
qed

lemma posts_le: "posts (snd (make_request available remote req)) \<le> 3"
  by (simp add: make_request_def upt3 posts_def max_retries_def split: outcome.splits prod.splits)

lemma upt2: "[0..<2] = [0, 1::nat]"
  by (simp add: upt_conv_Cons numeral_2_eq_2)

lemma retry_then_content:
  assumes "k < 3" "\<forall>i<k. retryable (remote req i)" "remote req k = Content c"
  shows "make_request True remote req =
      (Inr c, concat (map (\<lambda>i. [Post req, Sleep (backoff_wait (remote req i) i)]) [0..<k]) @ [Post req])"
proof -
  from assms(1) consider "k = 0" | "k = 1" | "k = 2" by linarith
  then show ?thesis
  proof cases
    case 1 with assms show ?thesis by (simp add: make_request_def max_retries_def upt3)
  next
    case 2 with assms show ?thesis
      by (auto simp add: make_request_def upt3 retryable_def backoff_wait_def max_retries_def retry_delay_def split: outcome.splits)
  next
    case 3
    have "retryable (remote req 0)" "retryable (remote req 1)" using assms(2) 3 by auto
    with 3 assms(3) show ?thesis
      by (auto simp add: make_request_def upt3 retryable_def backoff_wait_def max_retries_def retry_delay_def upt2 split: outcome.splits)
  qed
qed

lemma three_timeouts:
  assumes "\<forall>i<3. remote req i = TimedOut"
  shows "make_request True remote req = (Inr None, [Post req, Sleep 1, Post req, Sleep 1, Post req])"
  using assms by (simp add: make_request_def upt3 max_retries_def retry_delay_def)

lemma all_retryable:
  assumes "\<forall>i<3. retryable (remote req i)"
  shows "make_request True remote req =
      (Inr None,
       [Post req, Sleep (backoff_wait (remote req 0) 0),
        Post req, Sleep (backoff_wait (remote req 1) 1), Post req]
       @ (if remote req 2 = RateLimited then [Sleep 4] else []))"
proof -
  have "retryable (remote req 0)" "retryable (remote req 1)" "retryable (remote req 2)"
    using assms by auto
  then show ?thesis
    by (auto simp add: make_request_def upt3 retryable_def backoff_wait_def max_retries_def
        retry_delay_def split: outcome.splits)
qed

text \<open>
  Claim C2. With a credential configured, \<open>_make_request\<close> posts at most three times.
  When the first \<open>k < 3\<close> attempts end in a 429, a timeout or a transport error and attempt
  \<open>k\<close> answers with a choice, the trace is: for each failed attempt \<open>i\<close> a post followed
  by a wait of \<open>2 ^ i\<close> seconds after a 429 and of one second otherwise, then the one
  successful post, whose content is returned and after which nothing is posted. When all
  three attempts fail in one of these ways the result is \<open>None\<close> after three posts, with
  the same waits between them (and a last wait of four seconds when the third answer is a
  429); after three timeouts in particular the trace is post, wait 1, post, wait 1, post.
\<close>

theorem make_request_retry_policy:
  "posts (snd (make_request True remote req)) \<le> 3
   \<and> (\<forall>k c. k < 3 \<and> (\<forall>i<k. retryable (remote req i)) \<and> remote req k = Content c \<longrightarrow>
         make_request True remote req =
           (Inr c, concat (map (\<lambda>i. [Post req, Sleep (backoff_wait (remote req i) i)]) [0..<k])
                   @ [Post req]))
   \<and> ((\<forall>i<3. retryable (remote req i)) \<longrightarrow>
         make_request True remote req =
           (Inr None,
            [Post req, Sleep (backoff_wait (remote req 0) 0),
             Post req, Sleep (backoff_wait (remote req 1) 1), Post req]
            @ (if remote req 2 = RateLimited then [Sleep 4] else [])))
   \<and> ((\<forall>i<3. remote req i = TimedOut) \<longrightarrow>
         make_request True remote req =
           (Inr None, [Post req, Sleep 1, Post req, Sleep 1, Post req]))"
  using posts_le [of True remote req] retry_then_content [of _ remote req]
    all_retryable [of remote req] three_timeouts [of remote req]
  by blast

theorem make_request_retry_policy_witness:
  "make_request True (\<lambda>r i. if i < 2 then RateLimited else Content (Some (asc ''ok'')))
       \<lparr> req_content = [], req_temperature = 0, req_max_tokens = 1 \<rparr>
     = (Inr (Some (asc ''ok'')),
        [ Post \<lparr> req_content = [], req_temperature = 0, req_max_tokens = 1 \<rparr>, Sleep 1,
          Post \<lparr> req_content = [], req_temperature = 0, req_max_tokens = 1 \<rparr>, Sleep 2,
          Post \<lparr> req_content = [], req_temperature = 0, req_max_tokens = 1 \<rparr> ])
   \<and> make_request True (\<lambda>r i. RateLimited)
       \<lparr> req_content = [], req_temperature = 0, req_max_tokens = 1 \<rparr>
     = (Inr None,
        [ Post \<lparr> req_content = [], req_temperature = 0, req_max_tokens = 1 \<rparr>, Sleep 1,
          Post \<lparr> req_content = [], req_temperature = 0, req_max_tokens = 1 \<rparr>, Sleep 2,
          Post \<lparr> req_content = [], req_temperature = 0, req_max_tokens = 1 \<rparr>, Sleep 4 ])
   \<and> make_request True (\<lambda>r i. TimedOut)
       \<lparr> req_content = [], req_temperature = 0, req_max_tokens = 1 \<rparr>
     = (Inr None,
        [ Post \<lparr> req_content = [], req_temperature = 0, req_max_tokens = 1 \<rparr>, Sleep 1,
          Post \<lparr> req_content = [], req_temperature = 0, req_max_tokens = 1 \<rparr>, Sleep 1,
          Post \<lparr> req_content = [], req_temperature = 0, req_max_tokens = 1 \<rparr> ])"
proof -
  let ?req = "\<lparr> req_content = [], req_temperature = 0, req_max_tokens = 1 \<rparr>"
  let ?r1 = "\<lambda>(r::request) (i::nat). if i < 2 then RateLimited else Content (Some (asc ''ok''))"
  let ?r2 = "\<lambda>(r::request) (i::nat). TimedOut"
  let ?r3 = "\<lambda>(r::request) (i::nat). RateLimited"
  have a: "(2::nat) < 3 \<and> (\<forall>i<2. retryable (?r1 ?req i))
             \<and> ?r1 ?req 2 = Content (Some (asc ''ok''))"
    by (simp add: retryable_def)
  have "make_request True ?r1 ?req =
      (Inr (Some (asc ''ok'')),
       concat (map (\<lambda>i. [Post ?req, Sleep (backoff_wait (?r1 ?req i) i)]) [0..<2])
       @ [Post ?req])"
    using make_request_retry_policy [of ?r1 ?req] a by blast
  moreover have "make_request True ?r2 ?req
                   = (Inr None, [Post ?req, Sleep 1, Post ?req, Sleep 1, Post ?req])"
    using make_request_retry_policy [of ?r2 ?req] by simp
  moreover have "make_request True ?r3 ?req
                   = (Inr None, [Post ?req, Sleep (backoff_wait RateLimited 0),
                                 Post ?req, Sleep (backoff_wait RateLimited 1), Post ?req]
                                @ [Sleep 4])"
    using make_request_retry_policy [of ?r3 ?req] by (simp add: retryable_def)
  ultimately show ?thesis by (simp add: upt2 backoff_wait_def)
qed

section \<open>OCR clean-up\<close>

text \<open>
  Claim C6. On a text shorter than 50 characters \<open>cleanup_ocr_text\<close> returns the text
  and posts nothing; and on every text, when the client returns \<open>None\<close> or an exception
  leaves it, the text is returned unchanged.
\<close>

theorem cleanup_ocr_text_identity:
  "(length raw_text < 50 \<longrightarrow> cleanup_ocr_text available remote raw_text = (raw_text, []))
   \<and> ((fst (make_request available remote
              \<lparr> req_content = get_ocr_cleanup_prompt raw_text,
                req_temperature = 3 / 10, req_max_tokens = 2000 \<rparr>) = Inr None
        \<or> (\<exists>e. fst (make_request available remote
              \<lparr> req_content = get_ocr_cleanup_prompt raw_text,
                req_temperature = 3 / 10, req_max_tokens = 2000 \<rparr>) = Inl e))
       \<longrightarrow> fst (cleanup_ocr_text available remote raw_text) = raw_text)"
  by (auto simp add: cleanup_ocr_text_def split: prod.splits sum.splits option.splits)

theorem cleanup_ocr_text_identity_witness:
  "length (asc ''Rx: 5 mg'') < 50
   \<and> cleanup_ocr_text True (\<lambda>r i. Content (Some (asc ''clean''))) (asc ''Rx: 5 mg'')
       = (asc ''Rx: 5 mg'', [])
   \<and> fst (make_request True (\<lambda>r i. TimedOut)
            \<lparr> req_content = get_ocr_cleanup_prompt (replicate 60 120),
              req_temperature = 3 / 10, req_max_tokens = 2000 \<rparr>) = Inr None
   \<and> fst (cleanup_ocr_text True (\<lambda>r i. TimedOut) (replicate 60 120)) = replicate 60 120"
proof -
  have short: "length (asc ''Rx: 5 mg'') < 50"
    by (simp add: asc_def)
  have none: "fst (make_request True (\<lambda>r i. TimedOut)
            \<lparr> req_content = get_ocr_cleanup_prompt (replicate 60 120),
              req_temperature = 3 / 10, req_max_tokens = 2000 \<rparr>) = Inr None"
    by (simp add: make_request_def max_retries_def upt3)
  show ?thesis
    using short none
      cleanup_ocr_text_identity
        [of "asc ''Rx: 5 mg''" True "\<lambda>r i. Content (Some (asc ''clean''))"]
      cleanup_ocr_text_identity [of "replicate 60 120" True "\<lambda>r i. TimedOut"]
    by blast
qed

section \<open>Substrings of the templates\<close>

lemma sublist_join: "x \<in> set ls \<Longrightarrow> sublist x (join sep ls)"
proof (induction sep ls rule: join.induct)
  case (1 sep)
  then show ?case by simp
next
  case (2 sep p)
  then show ?case by simp
next
  case (3 sep p q ps)
  show ?case
  proof (cases "x = p")
    case True
    then show ?thesis by simp
  next
    case False
    with 3 have "sublist x (join sep (q # ps))" by simp
    moreover have "sublist (join sep (q # ps)) (p @ sep @ join sep (q # ps))"
      by (metis append.assoc sublist_append_leftI)
    ultimately show ?thesis
      using sublist_order.order_trans by fastforce
  qed
qed

lemma sublist_lines: "x \<in> set ls \<Longrightarrow> sublist x (lines ls)"
  by (simp add: lines_def sublist_join)

lemma sublist_trans: "sublist xs ys \<Longrightarrow> sublist ys zs \<Longrightarrow> sublist xs zs"
  using sublist_order.order_trans by blast

lemma in_set_nth: "i < length ls \<Longrightarrow> ls ! i = x \<Longrightarrow> x \<in> set ls"
  by auto

lemma disclaimer_in_base: "sublist MEDICAL_DISCLAIMER SYSTEM_PROMPT_BASE"
  unfolding SYSTEM_PROMPT_BASE_def by (rule sublist_lines, rule in_set_nth[of 12]) simp_all

lemma disclaimer_nonempty: "MEDICAL_DISCLAIMER \<noteq> []"
  by (simp add: MEDICAL_DISCLAIMER_def lines_def)

lemma sublist_nonempty: "sublist xs ys \<Longrightarrow> xs \<noteq> [] \<Longrightarrow> ys \<noteq> []"
  by auto


lemma timed_out_request: "make_request True (\<lambda>r i. TimedOut) req
    = (Inr None, [Post req, Sleep 1, Post req, Sleep 1, Post req])"
  by (simp add: make_request_def max_retries_def retry_delay_def upt3)

lemma replied_request: "make_request True (always_reply c) req = (Inr (Some c), [Post req])"
  by (simp add: make_request_def max_retries_def upt3 always_reply_def)

section \<open>Symptom summaries\<close>

lemma render_items_dicts: "list_all is_dict xs \<Longrightarrow> render_items f xs = Inr (map f (dicts xs))"
proof (induction xs)
  case Nil
  then show ?case by simp
next
  case (Cons x xs)
  then show ?case by (cases x) simp_all
qed

lemma list_all_take: "list_all P xs \<Longrightarrow> list_all P (take n xs)"
  by (metis append_take_drop_id list_all_append)

lemma other_operations_always_succeed:
  "\<exists>r t. summarize_document available remote document_text = (Inr r, t) \<and> dr_success r"
  "\<exists>r t. chat available remote message mode ctx = (Inr r, t) \<and> cr_success r"
  "list_all is_dict (take 10 symptoms) \<Longrightarrow>
     \<exists>r t. generate_symptom_summary available remote symptoms = (Inr r, t) \<and> sr_success r"
proof -
  show "\<exists>r t. summarize_document available remote document_text = (Inr r, t) \<and> dr_success r"
    by (auto simp add: summarize_document_def fallback_document_summary_def Let_def
        split: prod.splits sum.splits option.splits)
  show "\<exists>r t. chat available remote message mode ctx = (Inr r, t) \<and> cr_success r"
    by (auto simp add: chat_def fallback_chat_response_def
        split: prod.splits sum.splits option.splits)
  assume "list_all is_dict (take 10 symptoms)"
  then have "\<exists>fb. fallback_symptom_summary symptoms = Inr fb \<and> sr_success fb"
    by (simp add: fallback_symptom_summary_def render_items_dicts)
  then show "\<exists>r t. generate_symptom_summary available remote symptoms = (Inr r, t) \<and> sr_success r"
    by (auto simp add: generate_symptom_summary_def split: prod.splits sum.splits option.splits)
qed

text \<open>
  Claim C1 at a symptom list that holds a string instead of a record, as the route
  \<open>/summarize/symptoms\<close> forwards it: with or without a credential,
  \<open>generate_symptom_summary\<close> does not return a result, the \<open>AttributeError\<close> of its
  fallback leaves the operation. (The other two operations always return a result with
  \<open>success\<close> true, and so does this one when the first ten items are records: lemma
  \<open>other_operations_always_succeed\<close>.)
\<close>

theorem symptom_summary_raises_on_non_dict_item:
  "generate_symptom_summary False (always_reply (asc ''OK'')) [NotDict (VStr (asc ''headache''))]
     = (Inl AttributeError, [])
   \<and> generate_symptom_summary True (always_reply (asc ''OK'')) [NotDict (VStr (asc ''headache''))]
     = (Inl AttributeError, [])"
  by (simp add: generate_symptom_summary_def fallback_symptom_summary_def
      get_symptom_summary_prompt_def)

lemma fallback_text_has_disclaimer:
  "sublist MEDICAL_DISCLAIMER (symptom_fallback_text n l)"
  unfolding symptom_fallback_text_def
  by (rule sublist_lines, rule in_set_nth[of 11]) simp_all

lemma fallback_text_has_count:
  "sublist (asc ''You have logged '' @ str_nat n @ asc '' symptom(s).'') (symptom_fallback_text n l)"
proof -
  have "asc '' symptom(s). Here's a summary to share with your healthcare provider:''
          = asc '' symptom(s).'' @ asc '' Here's a summary to share with your healthcare provider:''"
    by (simp add: asc_def)
  then have "asc ''You have logged '' @ str_nat n
               @ asc '' symptom(s). Here's a summary to share with your healthcare provider:''
             = (asc ''You have logged '' @ str_nat n @ asc '' symptom(s).'')
               @ asc '' Here's a summary to share with your healthcare provider:''"
    by simp
  then have "sublist (asc ''You have logged '' @ str_nat n @ asc '' symptom(s).'')
               (asc ''You have logged '' @ str_nat n
                 @ asc '' symptom(s). Here's a summary to share with your healthcare provider:'')"
    by (simp only: sublist_append_rightI)
  moreover have "sublist (asc ''You have logged '' @ str_nat n
                 @ asc '' symptom(s). Here's a summary to share with your healthcare provider:'')
               (symptom_fallback_text n l)"
    unfolding symptom_fallback_text_def
    by (rule sublist_lines, rule in_set_nth[of 2]) simp_all
  ultimately show ?thesis by (rule sublist_trans)
qed

lemma fallback_text_has_lines:
  assumes "x \<in> set ls"
  shows "sublist x (symptom_fallback_text n (join [nl] ls))"
proof -
  have "sublist x (join [nl] ls)"
    using assms by (rule sublist_join)
  moreover have "sublist (join [nl] ls) (symptom_fallback_text n (join [nl] ls))"
    unfolding symptom_fallback_text_def
    by (rule sublist_lines, rule in_set_nth[of 4]) simp_all
  ultimately show ?thesis by (rule sublist_trans)
qed

text \<open>
  Claim C5, as stated, fails: when the endpoint answers with a text, the summary is that
  text, which need not contain the disclaimer. Here the reply is \<open>OK\<close>.
\<close>

theorem symptom_summary_disclaimer_counterexample:
  "generate_symptom_summary True (always_reply (asc ''OK'')) []
     = (Inr \<lparr> sr_success = True, sr_summary = asc ''OK'' \<rparr>,
        [Post \<lparr> req_content = symptom_summary_body [],
                 req_temperature = 7 / 10, req_max_tokens = 1500 \<rparr>])
   \<and> \<not> sublist MEDICAL_DISCLAIMER (asc ''OK'')"
proof -
  have "length MEDICAL_DISCLAIMER > length (asc ''OK'')"
    by (simp add: MEDICAL_DISCLAIMER_def lines_def asc_def)
  then have "\<not> sublist MEDICAL_DISCLAIMER (asc ''OK'')"
    using sublist_length_le leD by blast
  moreover have "asc ''OK'' \<noteq> []" by (simp add: asc_def)
  ultimately show ?thesis
    by (simp add: generate_symptom_summary_def get_symptom_summary_prompt_def make_request_def
        max_retries_def upt3 always_reply_def)
qed

text \<open>
  Claim C5, amended. For every list of symptom records (the empty list included), every
  availability and every behaviour of the endpoint, \<open>generate_symptom_summary\<close> returns
  \<open>success\<close> true and a non-empty summary. When the client returns a non-empty reply the
  result is that reply; in every other case (no credential, \<open>None\<close>, an empty reply, an
  exception) the result is the result of \<open>_fallback_symptom_summary\<close>: the template
  with the number of logged symptoms, one line for each of the first ten records, and the
  medical disclaimer.
\<close>

theorem symptom_summary_reply_or_fallback:
  "list_all is_dict symptoms \<longrightarrow>
     (\<exists>prompt fb r t.
        get_symptom_summary_prompt symptoms = Inr prompt
      \<and> fallback_symptom_summary symptoms = Inr fb
      \<and> sr_success fb
      \<and> sr_summary fb
           = symptom_fallback_text (length symptoms)
               (join [nl] (map fallback_symptom_line (dicts (take 10 symptoms))))
      \<and> sublist MEDICAL_DISCLAIMER (sr_summary fb)
      \<and> sublist (asc ''You have logged '' @ str_nat (length symptoms) @ asc '' symptom(s).'')
           (sr_summary fb)
      \<and> (\<forall>d \<in> set (dicts (take 10 symptoms)). sublist (fallback_symptom_line d) (sr_summary fb))
      \<and> generate_symptom_summary available remote symptoms = (Inr r, t)
      \<and> sr_success r
      \<and> sr_summary r \<noteq> []
      \<and> (case fst (make_request available remote
                     \<lparr> req_content = prompt, req_temperature = 7 / 10,
                       req_max_tokens = 1500 \<rparr>) of
            Inr (Some content) \<Rightarrow>
              r = (if content \<noteq> [] then \<lparr> sr_success = True, sr_summary = content \<rparr> else fb)
          | Inr None \<Rightarrow> r = fb
          | Inl e \<Rightarrow> r = fb))"
proof
  assume all: "list_all is_dict symptoms"
  let ?ls = "map fallback_symptom_line (dicts (take 10 symptoms))"
  let ?fb = "\<lparr> sr_success = True,
               sr_summary = symptom_fallback_text (length symptoms) (join [nl] ?ls) \<rparr>"
  let ?prompt = "symptom_summary_body (join [nl] (map symptom_prompt_line (dicts symptoms)))"
  let ?req = "\<lparr> req_content = ?prompt, req_temperature = 7 / 10, req_max_tokens = 1500 \<rparr>"
  have p: "get_symptom_summary_prompt symptoms = Inr ?prompt"
    using all by (simp add: get_symptom_summary_prompt_def render_items_dicts)
  have f: "fallback_symptom_summary symptoms = Inr ?fb"
    using all by (simp add: fallback_symptom_summary_def render_items_dicts list_all_take)
  have d: "sublist MEDICAL_DISCLAIMER (sr_summary ?fb)"
    by (simp add: fallback_text_has_disclaimer)
  then have n: "sr_summary ?fb \<noteq> []"
    using disclaimer_nonempty sublist_nonempty by blast
  have c: "sublist (asc ''You have logged '' @ str_nat (length symptoms) @ asc '' symptom(s).'')
             (sr_summary ?fb)"
    by (simp add: fallback_text_has_count)
  have l: "\<forall>d \<in> set (dicts (take 10 symptoms)). sublist (fallback_symptom_line d) (sr_summary ?fb)"
    by (simp add: fallback_text_has_lines)
  have g: "\<exists>r t. generate_symptom_summary available remote symptoms = (Inr r, t)
             \<and> sr_success r \<and> sr_summary r \<noteq> []
             \<and> (case fst (make_request available remote ?req) of
                   Inr (Some content) \<Rightarrow>
                     r = (if content \<noteq> [] then \<lparr> sr_success = True, sr_summary = content \<rparr>
                          else ?fb)
                 | Inr None \<Rightarrow> r = ?fb
                 | Inl e \<Rightarrow> r = ?fb)"
  proof (cases available)
    case False
    then show ?thesis using n
      by (simp add: generate_symptom_summary_def f make_request_def)
  next
    case True
    then show ?thesis using n
      by (auto simp add: generate_symptom_summary_def p f
          split: prod.splits sum.splits option.splits)
  qed
  from g obtain r t where
    g1: "generate_symptom_summary available remote symptoms = (Inr r, t)" and
    g2: "sr_success r" and
    g3: "sr_summary r \<noteq> []" and
    g4: "(case fst (make_request available remote ?req) of
            Inr (Some content) \<Rightarrow>
              r = (if content \<noteq> [] then \<lparr> sr_success = True, sr_summary = content \<rparr>
                   else ?fb)
          | Inr None \<Rightarrow> r = ?fb
          | Inl e \<Rightarrow> r = ?fb)"
    by blast
  show "\<exists>prompt fb r t.
        get_symptom_summary_prompt symptoms = Inr prompt
      \<and> fallback_symptom_summary symptoms = Inr fb
      \<and> sr_success fb
      \<and> sr_summary fb
           = symptom_fallback_text (length symptoms)
               (join [nl] (map fallback_symptom_line (dicts (take 10 symptoms))))
      \<and> sublist MEDICAL_DISCLAIMER (sr_summary fb)
      \<and> sublist (asc ''You have logged '' @ str_nat (length symptoms) @ asc '' symptom(s).'')
           (sr_summary fb)
      \<and> (\<forall>d \<in> set (dicts (take 10 symptoms)). sublist (fallback_symptom_line d) (sr_summary fb))
      \<and> generate_symptom_summary available remote symptoms = (Inr r, t)
      \<and> sr_success r
      \<and> sr_summary r \<noteq> []
      \<and> (case fst (make_request available remote
                     \<lparr> req_content = prompt, req_temperature = 7 / 10,
                       req_max_tokens = 1500 \<rparr>) of
            Inr (Some content) \<Rightarrow>
              r = (if content \<noteq> [] then \<lparr> sr_success = True, sr_summary = content \<rparr> else fb)
          | Inr None \<Rightarrow> r = fb
          | Inl e \<Rightarrow> r = fb)"
    by (rule exI[of _ ?prompt], rule exI[of _ ?fb], rule exI[of _ r], rule exI[of _ t])
       (use p f d c l g1 g2 g3 g4 in simp)
qed

theorem symptom_summary_reply_or_fallback_witness:
  "list_all is_dict headache_log
   \<and> (\<exists>fb. fallback_symptom_summary headache_log = Inr fb
          \<and> fst (generate_symptom_summary True (\<lambda>r i. TimedOut) headache_log) = Inr fb
          \<and> sublist MEDICAL_DISCLAIMER (sr_summary fb)
          \<and> sublist (asc ''You have logged '' @ str_nat 1 @ asc '' symptom(s).'') (sr_summary fb))
   \<and> fst (generate_symptom_summary True (always_reply (asc ''Looks fine'')) headache_log)
       = Inr \<lparr> sr_success = True, sr_summary = asc ''Looks fine'' \<rparr>"
proof -
  have a: "list_all is_dict headache_log"
    by (simp add: headache_log_def)
  have n: "length headache_log = 1"
    by (simp add: headache_log_def)
  have ne: "asc ''Looks fine'' \<noteq> []"
    by (simp add: asc_def)
  have one: "\<exists>fb. fallback_symptom_summary headache_log = Inr fb
          \<and> fst (generate_symptom_summary True (\<lambda>r i. TimedOut) headache_log) = Inr fb
          \<and> sublist MEDICAL_DISCLAIMER (sr_summary fb)
          \<and> sublist (asc ''You have logged '' @ str_nat 1 @ asc '' symptom(s).'') (sr_summary fb)"
    using a symptom_summary_reply_or_fallback [of headache_log True "\<lambda>r i. TimedOut"]
    by (auto simp add: timed_out_request n)
  have two: "fst (generate_symptom_summary True (always_reply (asc ''Looks fine'')) headache_log)
       = Inr \<lparr> sr_success = True, sr_summary = asc ''Looks fine'' \<rparr>"
    using a ne symptom_summary_reply_or_fallback
                 [of headache_log True "always_reply (asc ''Looks fine'')"]
    by (auto simp add: replied_request)
  show ?thesis using a one two by blast
qed

section \<open>Chat\<close>

lemma quoted_line:
  "sublist (asc ''\"'' @ message @ asc ''\"'') (asc ''Your question was: \"'' @ message @ asc ''\"'')"
proof -
  have "asc ''Your question was: \"'' = asc ''Your question was: '' @ asc ''\"''"
    by (simp add: asc_def)
  then have "asc ''Your question was: \"'' @ message @ asc ''\"''
               = asc ''Your question was: '' @ (asc ''\"'' @ message @ asc ''\"'')"
    by simp
  then show ?thesis
    by (simp only: sublist_append_leftI)
qed

lemma pre_visit_fallback_contents:
  "sublist (asc ''Your question was: \"'' @ message @ asc ''\"'') (pre_visit_fallback_text message)"
  "sublist (asc ''1. **Write down your symptoms** - Note when they started, how often they occur, and their severity'')
     (pre_visit_fallback_text message)"
  "sublist (asc ''2. **List your medications** - Include supplements and over-the-counter drugs'')
     (pre_visit_fallback_text message)"
  "sublist (asc ''3. **Prepare your questions** - Write them down so you don't forget'')
     (pre_visit_fallback_text message)"
  "sublist (asc ''4. **Bring relevant documents** - Test results, previous records, etc.'')
     (pre_visit_fallback_text message)"
  "sublist MEDICAL_DISCLAIMER (pre_visit_fallback_text message)"
  unfolding pre_visit_fallback_text_def
  by (rule sublist_lines, rule in_set_nth[of 9], simp_all)
     (rule sublist_lines, rule in_set_nth[of 4], simp_all,
      rule sublist_lines, rule in_set_nth[of 5], simp_all,
      rule sublist_lines, rule in_set_nth[of 6], simp_all,
      rule sublist_lines, rule in_set_nth[of 7], simp_all,
      rule sublist_lines, rule in_set_nth[of 13], simp_all)

lemma post_visit_fallback_contents:
  "sublist (asc ''Your question was: \"'' @ message @ asc ''\"'') (post_visit_fallback_text message)"
  "sublist (asc ''1. **Review your documents** - Read through them carefully'')
     (post_visit_fallback_text message)"
  "sublist (asc ''2. **Note any unclear terms** - Ask your doctor to explain'')
     (post_visit_fallback_text message)"
  "sublist (asc ''3. **Follow medication instructions** - Take as prescribed'')
     (post_visit_fallback_text message)"
  "sublist (asc ''4. **Schedule follow-ups** - As recommended by your doctor'')
     (post_visit_fallback_text message)"
  "sublist MEDICAL_DISCLAIMER (post_visit_fallback_text message)"
  unfolding post_visit_fallback_text_def
  by (rule sublist_lines, rule in_set_nth[of 9], simp_all)
     (rule sublist_lines, rule in_set_nth[of 4], simp_all,
      rule sublist_lines, rule in_set_nth[of 5], simp_all,
      rule sublist_lines, rule in_set_nth[of 6], simp_all,
      rule sublist_lines, rule in_set_nth[of 7], simp_all,
      rule sublist_lines, rule in_set_nth[of 13], simp_all)

lemma templates_differ: "pre_visit_fallback_text message \<noteq> post_visit_fallback_text message"
proof -
  have "pre_visit_fallback_text message ! 39 = 112"
    by (simp add: pre_visit_fallback_text_def lines_def asc_def nth_append)
  moreover have "post_visit_fallback_text message ! 39 = 121"
    by (simp add: post_visit_fallback_text_def lines_def asc_def nth_append)
  ultimately show ?thesis by auto
qed

text \<open>
  Claim C8. With no credential configured, for every message, mode and context, \<open>chat\<close>
  posts nothing and returns \<open>success\<close> true with the pre-visit template when the mode is
  \<open>pre_visit\<close> and the post-visit template otherwise. The response contains the line
  \<open>Your question was: "..."\<close> with the message verbatim between the quotation marks,
  the four numbered tips of its mode (the pre-visit tips differ from the post-visit ones)
  and the medical disclaimer; the last two conjuncts give the two templates in full. In
  particular the response to \<open>What should I ask my doctor?\<close> in mode \<open>pre_visit\<close>
  contains that message.
\<close>

theorem chat_fallback_echoes_message:
  "(\<exists>r. chat False remote message mode ctx = (Inr r, [])
       \<and> cr_success r
       \<and> cr_response r = (if mode = asc ''pre_visit'' then pre_visit_fallback_text message
                          else post_visit_fallback_text message)
       \<and> sublist (asc ''Your question was: \"'' @ message @ asc ''\"'') (cr_response r)
       \<and> sublist (asc ''\"'' @ message @ asc ''\"'') (cr_response r)
       \<and> sublist message (cr_response r)
       \<and> sublist MEDICAL_DISCLAIMER (cr_response r)
       \<and> (mode = asc ''pre_visit'' \<longrightarrow>
             sublist (asc ''1. **Write down your symptoms** - Note when they started, how often they occur, and their severity'')
               (cr_response r)
           \<and> sublist (asc ''2. **List your medications** - Include supplements and over-the-counter drugs'')
               (cr_response r)
           \<and> sublist (asc ''3. **Prepare your questions** - Write them down so you don't forget'')
               (cr_response r)
           \<and> sublist (asc ''4. **Bring relevant documents** - Test results, previous records, etc.'')
               (cr_response r))
       \<and> (mode \<noteq> asc ''pre_visit'' \<longrightarrow>
             sublist (asc ''1. **Review your documents** - Read through them carefully'')
               (cr_response r)
           \<and> sublist (asc ''2. **Note any unclear terms** - Ask your doctor to explain'')
               (cr_response r)
           \<and> sublist (asc ''3. **Follow medication instructions** - Take as prescribed'')
               (cr_response r)
           \<and> sublist (asc ''4. **Schedule follow-ups** - As recommended by your doctor'')
               (cr_response r))
       \<and> pre_visit_fallback_text message \<noteq> post_visit_fallback_text message)
   \<and> pre_visit_fallback_text message = lines
       [ asc ''I understand you have a question about preparing for your doctor visit.'',
         [],
         asc ''While I can't provide specific advice right now, here are some general tips:'',
         [],
         asc ''1. **Write down your symptoms** - Note when they started, how often they occur, and their severity'',
         asc ''2. **List your medications** - Include supplements and over-the-counter drugs'',
         asc ''3. **Prepare your questions** - Write them down so you don't forget'',
         asc ''4. **Bring relevant documents** - Test results, previous records, etc.'',
         [],
         asc ''Your question was: \"'' @ message @ asc ''\"'',
         [],
         asc ''Please discuss this with your healthcare provider during your visit.'',
         [],
         MEDICAL_DISCLAIMER ]
   \<and> post_visit_fallback_text message = lines
       [ asc ''I understand you have a question about your visit notes.'',
         [],
         asc ''While I can't process your specific question right now, here's general guidance:'',
         [],
         asc ''1. **Review your documents** - Read through them carefully'',
         asc ''2. **Note any unclear terms** - Ask your doctor to explain'',
         asc ''3. **Follow medication instructions** - Take as prescribed'',
         asc ''4. **Schedule follow-ups** - As recommended by your doctor'',
         [],
         asc ''Your question was: \"'' @ message @ asc ''\"'',
         [],
         asc ''For specific questions about your treatment, please contact your healthcare provider.'',
         [],
         MEDICAL_DISCLAIMER ]"
proof -
  let ?r = "fallback_chat_response message mode"
  have c: "chat False remote message md ctx = (Inr (fallback_chat_response message md), [])" for md
    by (simp add: chat_def)
  have s: "cr_success (fallback_chat_response message md)" for md
    by (simp add: fallback_chat_response_def)
  have t: "cr_response (fallback_chat_response message md)
             = (if md = asc ''pre_visit'' then pre_visit_fallback_text message
                else post_visit_fallback_text message)" for md
    by (simp add: fallback_chat_response_def)
  have q: "sublist (asc ''\"'' @ message @ asc ''\"'') t"
    if "sublist (asc ''Your question was: \"'' @ message @ asc ''\"'') t" for t
    using quoted_line that by (rule sublist_trans)
  have m: "sublist message t" if "sublist (asc ''\"'' @ message @ asc ''\"'') t" for t
  proof -
    have "sublist message (asc ''\"'' @ message @ asc ''\"'')"
      by (rule sublist_appendI)
    then show ?thesis using that by (rule sublist_trans)
  qed
  have main: "\<exists>r. chat False remote message mode ctx = (Inr r, [])
         \<and> cr_success r
         \<and> cr_response r = (if mode = asc ''pre_visit'' then pre_visit_fallback_text message
                            else post_visit_fallback_text message)
         \<and> sublist (asc ''Your question was: \"'' @ message @ asc ''\"'') (cr_response r)
         \<and> sublist (asc ''\"'' @ message @ asc ''\"'') (cr_response r)
         \<and> sublist message (cr_response r)
         \<and> sublist MEDICAL_DISCLAIMER (cr_response r)
         \<and> (mode = asc ''pre_visit'' \<longrightarrow>
               sublist (asc ''1. **Write down your symptoms** - Note when they started, how often they occur, and their severity'')
                 (cr_response r)
             \<and> sublist (asc ''2. **List your medications** - Include supplements and over-the-counter drugs'')
                 (cr_response r)
             \<and> sublist (asc ''3. **Prepare your questions** - Write them down so you don't forget'')
                 (cr_response r)
             \<and> sublist (asc ''4. **Bring relevant documents** - Test results, previous records, etc.'')
                 (cr_response r))
         \<and> (mode \<noteq> asc ''pre_visit'' \<longrightarrow>
               sublist (asc ''1. **Review your documents** - Read through them carefully'')
                 (cr_response r)
             \<and> sublist (asc ''2. **Note any unclear terms** - Ask your doctor to explain'')
                 (cr_response r)
             \<and> sublist (asc ''3. **Follow medication instructions** - Take as prescribed'')
                 (cr_response r)
             \<and> sublist (asc ''4. **Schedule follow-ups** - As recommended by your doctor'')
                 (cr_response r))
         \<and> pre_visit_fallback_text message \<noteq> post_visit_fallback_text message"
  proof (cases "mode = asc ''pre_visit''")
    case True
    show ?thesis
      by (rule exI[of _ ?r])
         (simp add: c s t True templates_differ pre_visit_fallback_contents q m)
  next
    case False
    show ?thesis
      by (rule exI[of _ ?r])
         (simp add: c s t False templates_differ post_visit_fallback_contents q m)
  qed
  show ?thesis
    by (intro conjI) (rule main pre_visit_fallback_text_def post_visit_fallback_text_def)+
qed

theorem chat_fallback_echoes_message_witness:
  "\<exists>r. chat False (always_reply (asc ''unused'')) (asc ''What should I ask my doctor?'')
           (asc ''pre_visit'') (IsDict \<lparr> ctx_symptoms = Absent, ctx_summary = Absent \<rparr>)
         = (Inr r, [])
       \<and> cr_success r
       \<and> sublist (asc ''What should I ask my doctor?'') (cr_response r)
       \<and> sublist (asc ''1. **Write down your symptoms** - Note when they started, how often they occur, and their severity'')
               (cr_response r)"
  using chat_fallback_echoes_message
          [of "always_reply (asc ''unused'')" "asc ''What should I ask my doctor?''"
              "asc ''pre_visit''" "IsDict \<lparr> ctx_symptoms = Absent, ctx_summary = Absent \<rparr>",
           THEN conjunct1]
  by auto

lemma attempts_events:
  "e \<in> set (snd (attempts remote req as)) \<Longrightarrow> (\<exists>n. e = Sleep n) \<or> e = Post req"
  by (induction as) (auto split: outcome.splits prod.splits if_splits)

lemma make_request_events:
  "e \<in> set (snd (make_request available remote req)) \<Longrightarrow> (\<exists>n. e = Sleep n) \<or> e = Post req"
  using attempts_events by (fastforce simp add: make_request_def split: if_splits)

lemma post_visit_body_mode:
  "sublist (asc ''MODE: POST-VISIT UNDERSTANDING'') (post_visit_body message c)"
  unfolding post_visit_body_def
  by (rule sublist_lines, rule in_set_nth[of 2]) simp_all

lemma post_visit_body_question:
  "sublist (asc ''PATIENT'S QUESTION: '' @ message) (post_visit_body message c)"
  unfolding post_visit_body_def
  by (rule sublist_lines, rule in_set_nth[of 7]) simp_all

lemma post_visit_body_context: "c \<noteq> [] \<Longrightarrow> sublist c (post_visit_body message c)"
  unfolding post_visit_body_def
  by (rule sublist_lines, rule in_set_nth[of 5]) simp_all

lemma post_visit_prompt_is_body:
  "get_post_visit_chat_prompt message su = Inr p \<Longrightarrow> \<exists>c. p = post_visit_body message c"
  by (cases su) (auto split: if_splits sum.splits)

lemma post_visit_prompt_has_summary:
  assumes "get_post_visit_chat_prompt message (Present s) = Inr p" "vs_patientSummary s = Some v"
  shows "sublist (py_str v) p"
proof -
  have ne: "dict_nonempty s"
    using assms(2) by (simp add: dict_nonempty_def)
  then obtain c where c: "summary_context_text s = Inr c" and p: "p = post_visit_body message c"
    using assms(1) by (auto split: sum.splits)
  from c obtain names where
    cd: "c = lines [ [], asc ''Recent visit summary:'', py_str v, [],
                     asc ''Medications: '' @ join (asc '', '') names, [] ]"
    using assms(2) by (auto simp add: summary_context_text_def split: sum.splits)
  have "sublist (py_str v) c"
    unfolding cd by (rule sublist_lines, rule in_set_nth[of 2]) simp_all
  moreover have "c \<noteq> []"
    by (simp add: cd lines_def)
  ultimately show ?thesis
    using p post_visit_body_context sublist_trans by blast
qed

text \<open>
  Claim C10. \<open>chat\<close> does not validate its mode. For every mode other than the exact
  string \<open>pre_visit\<close>: the prompt is the post-visit prompt built from the context's
  \<open>summary\<close> (it names the post-visit mode, the question and the stored patient
  summary); with a credential every post of the operation carries that prompt, the trace
  is the trace of that one client call, and the result is the client's non-empty reply or
  else the post-visit fallback; when building the prompt raises, and when there is no
  credential, nothing is posted and the result is the post-visit fallback. The operation
  behaves exactly as it does for \<open>post_visit\<close>.
\<close>

theorem chat_mode_not_validated:
  "mode \<noteq> asc ''pre_visit'' \<longrightarrow>
     chat_prompt message mode (IsDict ctx) = get_post_visit_chat_prompt message (ctx_summary ctx)
     \<and> (\<forall>prompt. get_post_visit_chat_prompt message (ctx_summary ctx) = Inr prompt \<longrightarrow>
            sublist (asc ''MODE: POST-VISIT UNDERSTANDING'') prompt
          \<and> sublist (asc ''PATIENT'S QUESTION: '' @ message) prompt
          \<and> (\<forall>s v. ctx_summary ctx = Present s \<and> vs_patientSummary s = Some v \<longrightarrow>
                 sublist (py_str v) prompt)
          \<and> snd (chat True remote message mode (IsDict ctx))
              = snd (make_request True remote
                      \<lparr> req_content = prompt, req_temperature = 7 / 10, req_max_tokens = 800 \<rparr>)
          \<and> (\<forall>e \<in> set (snd (chat True remote message mode (IsDict ctx))).
                 (\<exists>n. e = Sleep n)
               \<or> e = Post \<lparr> req_content = prompt, req_temperature = 7 / 10,
                            req_max_tokens = 800 \<rparr>)
          \<and> fst (chat True remote message mode (IsDict ctx))
              = Inr (case fst (make_request True remote
                                \<lparr> req_content = prompt, req_temperature = 7 / 10,
                                  req_max_tokens = 800 \<rparr>) of
                       Inr (Some content) \<Rightarrow>
                         (if content \<noteq> [] then \<lparr> cr_success = True, cr_response = content \<rparr>
                          else \<lparr> cr_success = True,
                                 cr_response = post_visit_fallback_text message \<rparr>)
                     | Inr None \<Rightarrow>
                         \<lparr> cr_success = True, cr_response = post_visit_fallback_text message \<rparr>
                     | Inl e \<Rightarrow>
                         \<lparr> cr_success = True, cr_response = post_visit_fallback_text message \<rparr>))
     \<and> (\<forall>e. get_post_visit_chat_prompt message (ctx_summary ctx) = Inl e \<longrightarrow>
            chat True remote message mode (IsDict ctx)
              = (Inr \<lparr> cr_success = True, cr_response = post_visit_fallback_text message \<rparr>, []))
     \<and> fallback_chat_response message mode
         = \<lparr> cr_success = True, cr_response = post_visit_fallback_text message \<rparr>
     \<and> sublist (asc ''1. **Review your documents** - Read through them carefully'')
          (post_visit_fallback_text message)
     \<and> chat available remote message mode any_ctx
         = chat available remote message (asc ''post_visit'') any_ctx"
proof
  assume m: "mode \<noteq> asc ''pre_visit''"
  have pv: "asc ''post_visit'' \<noteq> asc ''pre_visit''"
    by (simp add: asc_def)
  have f: "fallback_chat_response message mode
             = \<lparr> cr_success = True, cr_response = post_visit_fallback_text message \<rparr>"
    using m by (simp add: fallback_chat_response_def)
  have f': "fallback_chat_response message (asc ''post_visit'')
             = \<lparr> cr_success = True, cr_response = post_visit_fallback_text message \<rparr>"
    using pv by (simp add: fallback_chat_response_def)
  have c: "chat_prompt message mode x = chat_prompt message (asc ''post_visit'') x" for x
    using m pv by (cases x) simp_all
  have cp: "chat_prompt message mode (IsDict ctx)
              = get_post_visit_chat_prompt message (ctx_summary ctx)"
    using m by simp
  have same: "chat available remote message mode any_ctx
                = chat available remote message (asc ''post_visit'') any_ctx"
    unfolding chat_def f f' c by (rule refl)
  have remote_path:
    "sublist (asc ''MODE: POST-VISIT UNDERSTANDING'') prompt
     \<and> sublist (asc ''PATIENT'S QUESTION: '' @ message) prompt
     \<and> (\<forall>s v. ctx_summary ctx = Present s \<and> vs_patientSummary s = Some v \<longrightarrow>
            sublist (py_str v) prompt)
     \<and> snd (chat True remote message mode (IsDict ctx))
         = snd (make_request True remote
                 \<lparr> req_content = prompt, req_temperature = 7 / 10, req_max_tokens = 800 \<rparr>)
     \<and> (\<forall>e \<in> set (snd (chat True remote message mode (IsDict ctx))).
            (\<exists>n. e = Sleep n)
          \<or> e = Post \<lparr> req_content = prompt, req_temperature = 7 / 10, req_max_tokens = 800 \<rparr>)
     \<and> fst (chat True remote message mode (IsDict ctx))
         = Inr (case fst (make_request True remote
                           \<lparr> req_content = prompt, req_temperature = 7 / 10,
                             req_max_tokens = 800 \<rparr>) of
                  Inr (Some content) \<Rightarrow>
                    (if content \<noteq> [] then \<lparr> cr_success = True, cr_response = content \<rparr>
                     else \<lparr> cr_success = True,
                            cr_response = post_visit_fallback_text message \<rparr>)
                | Inr None \<Rightarrow>
                    \<lparr> cr_success = True, cr_response = post_visit_fallback_text message \<rparr>
                | Inl e \<Rightarrow>
                    \<lparr> cr_success = True, cr_response = post_visit_fallback_text message \<rparr>)"
    if p: "get_post_visit_chat_prompt message (ctx_summary ctx) = Inr prompt" for prompt
  proof -
    let ?req = "\<lparr> req_content = prompt, req_temperature = 7 / 10, req_max_tokens = 800 \<rparr>"
    obtain b where b: "prompt = post_visit_body message b"
      using p post_visit_prompt_is_body by blast
    have s1: "snd (chat True remote message mode (IsDict ctx)) = snd (make_request True remote ?req)"
      using m by (simp add: chat_def p split: prod.splits sum.splits option.splits)
    have s2: "fst (chat True remote message mode (IsDict ctx))
         = Inr (case fst (make_request True remote ?req) of
                  Inr (Some content) \<Rightarrow>
                    (if content \<noteq> [] then \<lparr> cr_success = True, cr_response = content \<rparr>
                     else \<lparr> cr_success = True,
                            cr_response = post_visit_fallback_text message \<rparr>)
                | Inr None \<Rightarrow>
                    \<lparr> cr_success = True, cr_response = post_visit_fallback_text message \<rparr>
                | Inl e \<Rightarrow>
                    \<lparr> cr_success = True, cr_response = post_visit_fallback_text message \<rparr>)"
      using m by (simp add: chat_def p f split: prod.splits sum.splits option.splits)
    have s3: "\<forall>e \<in> set (snd (chat True remote message mode (IsDict ctx))).
            (\<exists>n. e = Sleep n) \<or> e = Post ?req"
      unfolding s1 using make_request_events by blast
    have s4: "\<forall>s v. ctx_summary ctx = Present s \<and> vs_patientSummary s = Some v \<longrightarrow>
            sublist (py_str v) prompt"
      using p post_visit_prompt_has_summary by metis
    show ?thesis
      using s1 s2 s3 s4 post_visit_body_mode [of message b]
        post_visit_body_question [of message b] b by blast
  qed
  have raised: "chat True remote message mode (IsDict ctx)
              = (Inr \<lparr> cr_success = True, cr_response = post_visit_fallback_text message \<rparr>, [])"
    if "get_post_visit_chat_prompt message (ctx_summary ctx) = Inl e" for e
    using that m by (simp add: chat_def f)
  show "chat_prompt message mode (IsDict ctx) = get_post_visit_chat_prompt message (ctx_summary ctx)
     \<and> (\<forall>prompt. get_post_visit_chat_prompt message (ctx_summary ctx) = Inr prompt \<longrightarrow>
            sublist (asc ''MODE: POST-VISIT UNDERSTANDING'') prompt
          \<and> sublist (asc ''PATIENT'S QUESTION: '' @ message) prompt
          \<and> (\<forall>s v. ctx_summary ctx = Present s \<and> vs_patientSummary s = Some v \<longrightarrow>
                 sublist (py_str v) prompt)
          \<and> snd (chat True remote message mode (IsDict ctx))
              = snd (make_request True remote
                      \<lparr> req_content = prompt, req_temperature = 7 / 10, req_max_tokens = 800 \<rparr>)
          \<and> (\<forall>e \<in> set (snd (chat True remote message mode (IsDict ctx))).
                 (\<exists>n. e = Sleep n)
               \<or> e = Post \<lparr> req_content = prompt, req_temperature = 7 / 10,
                            req_max_tokens = 800 \<rparr>)
          \<and> fst (chat True remote message mode (IsDict ctx))
              = Inr (case fst (make_request True remote
                                \<lparr> req_content = prompt, req_temperature = 7 / 10,
                                  req_max_tokens = 800 \<rparr>) of
                       Inr (Some content) \<Rightarrow>
                         (if content \<noteq> [] then \<lparr> cr_success = True, cr_response = content \<rparr>
                          else \<lparr> cr_success = True,
                                 cr_response = post_visit_fallback_text message \<rparr>)
                     | Inr None \<Rightarrow>
                         \<lparr> cr_success = True, cr_response = post_visit_fallback_text message \<rparr>
                     | Inl e \<Rightarrow>
                         \<lparr> cr_success = True, cr_response = post_visit_fallback_text message \<rparr>))
     \<and> (\<forall>e. get_post_visit_chat_prompt message (ctx_summary ctx) = Inl e \<longrightarrow>
            chat True remote message mode (IsDict ctx)
              = (Inr \<lparr> cr_success = True, cr_response = post_visit_fallback_text message \<rparr>, []))
     \<and> fallback_chat_response message mode
         = \<lparr> cr_success = True, cr_response = post_visit_fallback_text message \<rparr>
     \<and> sublist (asc ''1. **Review your documents** - Read through them carefully'')
          (post_visit_fallback_text message)
     \<and> chat available remote message mode any_ctx
         = chat available remote message (asc ''post_visit'') any_ctx"
    using cp remote_path raised f post_visit_fallback_contents(2) [of message] same
    by (intro conjI allI impI) blast+
qed

lemma cold_summary_prompt:
  "get_post_visit_chat_prompt message (ctx_summary cold_summary_context)
     = Inr (post_visit_body message
              (lines [ [], asc ''Recent visit summary:'', asc ''You have a mild cold.'', [],
                       asc ''Medications: '' @ asc ''Ibuprofen'', [] ]))"
  by (simp add: cold_summary_context_def dict_nonempty_def summary_context_text_def
      medication_names_def medication_name_def)

theorem chat_mode_not_validated_witness:
  "asc ''PRE_VISIT'' \<noteq> asc ''pre_visit''
   \<and> (\<exists>prompt. get_post_visit_chat_prompt (asc ''Is it serious?'')
                   (ctx_summary cold_summary_context) = Inr prompt
         \<and> sublist (asc ''MODE: POST-VISIT UNDERSTANDING'') prompt
         \<and> sublist (asc ''You have a mild cold.'') prompt
         \<and> chat True (always_reply (asc ''Not usually.'')) (asc ''Is it serious?'')
              (asc ''PRE_VISIT'') (IsDict cold_summary_context)
             = (Inr \<lparr> cr_success = True, cr_response = asc ''Not usually.'' \<rparr>,
                [Post \<lparr> req_content = prompt, req_temperature = 7 / 10,
                         req_max_tokens = 800 \<rparr>]))
   \<and> get_post_visit_chat_prompt (asc ''Is it serious?'') (ctx_summary broken_summary_context)
       = Inl AttributeError
   \<and> chat True (always_reply (asc ''Not usually.'')) (asc ''Is it serious?'') []
        (IsDict broken_summary_context)
       = (Inr \<lparr> cr_success = True,
                cr_response = post_visit_fallback_text (asc ''Is it serious?'') \<rparr>, [])"
proof -
  let ?m = "asc ''Is it serious?''"
  let ?R = "always_reply (asc ''Not usually.'')"
  let ?s = "\<lparr> vs_patientSummary = Some (VStr (asc ''You have a mild cold.'')),
              vs_medications = Present [IsDict [asc ''name'' \<mapsto> VStr (asc ''Ibuprofen'')]],
              vs_other_keys = False \<rparr>"
  have a: "asc ''PRE_VISIT'' \<noteq> asc ''pre_visit''" and b: "[] \<noteq> asc ''pre_visit''"
    and ne: "asc ''Not usually.'' \<noteq> []"
    by (simp_all add: asc_def)
  obtain prompt where p: "get_post_visit_chat_prompt ?m (ctx_summary cold_summary_context)
                            = Inr prompt"
    using cold_summary_prompt by blast
  have s: "ctx_summary cold_summary_context = Present ?s
             \<and> vs_patientSummary ?s = Some (VStr (asc ''You have a mild cold.''))"
    by (simp add: cold_summary_context_def)
  let ?req = "\<lparr> req_content = prompt, req_temperature = 7 / 10, req_max_tokens = 800 \<rparr>"
  note u = chat_mode_not_validated
             [of "asc ''PRE_VISIT''" ?m cold_summary_context ?R, THEN mp, OF a]
  note v = u [THEN conjunct2, THEN conjunct1, THEN spec, THEN mp, OF p]
  note t1 = v [THEN conjunct1]
  note t2 = v [THEN conjunct2, THEN conjunct2, THEN conjunct1, THEN spec, THEN spec, THEN mp,
               OF s]
  note t3 = v [THEN conjunct2, THEN conjunct2, THEN conjunct2, THEN conjunct1]
  note t4 = v [THEN conjunct2, THEN conjunct2, THEN conjunct2, THEN conjunct2, THEN conjunct2]
  have one: "chat True ?R ?m (asc ''PRE_VISIT'') (IsDict cold_summary_context)
               = (Inr \<lparr> cr_success = True, cr_response = asc ''Not usually.'' \<rparr>, [Post ?req])"
    using t3 t4 ne by (simp add: replied_request prod_eq_iff)
  have e: "get_post_visit_chat_prompt ?m (ctx_summary broken_summary_context) = Inl AttributeError"
    by (simp add: broken_summary_context_def)
  note w = chat_mode_not_validated [of "[]" ?m broken_summary_context ?R, THEN mp, OF b]
  note two = w [THEN conjunct2, THEN conjunct2, THEN conjunct1, THEN spec, THEN mp, OF e]
  have t2': "sublist (asc ''You have a mild cold.'') prompt"
    using t2 by simp
  show ?thesis
    by (intro conjI exI[of _ prompt]) (rule a p t1 t2' one e two)+
qed

section \<open>Document summaries\<close>

text \<open>
  Claim C9, as stated, fails: a call that succeeds with a choice whose content is the
  empty string is treated as a failure, and \<open>doctorSummary\<close> is then the fallback
  preview of 500 characters. Here the text has 501 characters.
\<close>

theorem doctor_summary_empty_reply_counterexample:
  "make_request True (always_reply [])
       \<lparr> req_content = get_document_summary_prompt (replicate 501 120),
         req_temperature = 5 / 10, req_max_tokens = 2000 \<rparr>
     = (Inr (Some []),
        [Post \<lparr> req_content = get_document_summary_prompt (replicate 501 120),
                 req_temperature = 5 / 10, req_max_tokens = 2000 \<rparr>])
   \<and> length (replicate 501 (120::nat)) \<le> 1000
   \<and> fst (summarize_document True (always_reply []) (replicate 501 120))
       = Inr (fallback_document_summary (replicate 501 120))
   \<and> dr_doctorSummary (fallback_document_summary (replicate 501 120))
       = replicate 500 120 @ asc ''...''
   \<and> replicate 500 120 @ asc ''...'' \<noteq> replicate 501 120"
proof -
  have "length (replicate 500 (120::nat) @ asc ''...'') \<noteq> length (replicate 501 (120::nat))"
    by (simp add: asc_def)
  then have "replicate 500 (120::nat) @ asc ''...'' \<noteq> replicate 501 120"
    by metis
  then show ?thesis
    by (simp add: replied_request summarize_document_def fallback_document_summary_def Let_def)
qed

text \<open>
  Claim C9, amended. When the client returns a non-empty reply, the \<open>doctorSummary\<close> of
  \<open>summarize_document\<close> is the document text if it has at most 1000 characters, and
  its first 1000 characters followed by \<open>...\<close> otherwise, whatever the reply says.
  When the client returns an empty reply, \<open>None\<close> or an exception, the result is the
  fallback result, whose \<open>doctorSummary\<close> is the text if it has at most 500 characters
  and its first 500 characters followed by \<open>...\<close> otherwise.
\<close>

theorem doctor_summary_preview_or_fallback:
  "(make_request True remote
       \<lparr> req_content = get_document_summary_prompt document_text,
         req_temperature = 5 / 10, req_max_tokens = 2000 \<rparr> = (Inr (Some content), t)
    \<and> content \<noteq> []
    \<longrightarrow> (\<exists>r. summarize_document True remote document_text = (Inr r, t)
            \<and> dr_doctorSummary r =
                (if length document_text \<le> 1000 then document_text
                 else take 1000 document_text @ asc ''...'')))
   \<and> ((make_request True remote
          \<lparr> req_content = get_document_summary_prompt document_text,
            req_temperature = 5 / 10, req_max_tokens = 2000 \<rparr> = (Inr (Some []), t)
        \<or> make_request True remote
          \<lparr> req_content = get_document_summary_prompt document_text,
            req_temperature = 5 / 10, req_max_tokens = 2000 \<rparr> = (Inr None, t)
        \<or> (\<exists>e. make_request True remote
          \<lparr> req_content = get_document_summary_prompt document_text,
            req_temperature = 5 / 10, req_max_tokens = 2000 \<rparr> = (Inl e, t)))
       \<longrightarrow> summarize_document True remote document_text
             = (Inr (fallback_document_summary document_text), t)
           \<and> dr_doctorSummary (fallback_document_summary document_text) =
               (if length document_text \<le> 500 then document_text
                else take 500 document_text @ asc ''...''))"
  by (auto simp add: summarize_document_def doctor_preview_def fallback_document_summary_def
      Let_def)

theorem doctor_summary_preview_or_fallback_witness:
  "(\<exists>r t. summarize_document True (always_reply (asc ''fine'')) (replicate 1001 120) = (Inr r, t)
          \<and> dr_doctorSummary r = replicate 1000 120 @ asc ''...'')
   \<and> (\<exists>r t. summarize_document True (always_reply (asc ''fine'')) (replicate 501 120) = (Inr r, t)
          \<and> dr_doctorSummary r = replicate 501 120)
   \<and> (\<exists>t. summarize_document True (always_reply []) (replicate 501 120)
            = (Inr (fallback_document_summary (replicate 501 120)), t)
          \<and> dr_doctorSummary (fallback_document_summary (replicate 501 120))
              = replicate 500 120 @ asc ''...'')"
proof -
  have ne: "asc ''fine'' \<noteq> []"
    by (simp add: asc_def)
  have one: "\<exists>r t. summarize_document True (always_reply (asc ''fine'')) (replicate 1001 120)
                     = (Inr r, t)
          \<and> dr_doctorSummary r = replicate 1000 120 @ asc ''...''"
    using ne doctor_summary_preview_or_fallback
               [of "always_reply (asc ''fine'')" "replicate 1001 120" "asc ''fine''"
                   "[Post \<lparr> req_content = get_document_summary_prompt (replicate 1001 120),
                             req_temperature = 5 / 10, req_max_tokens = 2000 \<rparr>]"]
    by (auto simp add: replied_request)
  have two: "\<exists>r t. summarize_document True (always_reply (asc ''fine'')) (replicate 501 120)
                     = (Inr r, t)
          \<and> dr_doctorSummary r = replicate 501 120"
    using ne doctor_summary_preview_or_fallback
               [of "always_reply (asc ''fine'')" "replicate 501 120" "asc ''fine''"
                   "[Post \<lparr> req_content = get_document_summary_prompt (replicate 501 120),
                             req_temperature = 5 / 10, req_max_tokens = 2000 \<rparr>]"]
    by (auto simp add: replied_request)
  have three: "\<exists>t. summarize_document True (always_reply []) (replicate 501 120)
            = (Inr (fallback_document_summary (replicate 501 120)), t)
          \<and> dr_doctorSummary (fallback_document_summary (replicate 501 120))
              = replicate 500 120 @ asc ''...''"
    using doctor_summary_preview_or_fallback
            [of "always_reply []" "replicate 501 120" _
                "[Post \<lparr> req_content = get_document_summary_prompt (replicate 501 120),
                          req_temperature = 5 / 10, req_max_tokens = 2000 \<rparr>]"]
    by (auto simp add: replied_request)
  show ?thesis using one two three by blast
qed

section \<open>Prompts\<close>

text \<open>
  The symptom-summary, document-summary, pre-visit and post-visit prompts all start with
  the system preamble, which ends with the disclaimer.
\<close>

lemma other_prompts_have_preamble:
  "get_symptom_summary_prompt symptoms = Inr sp \<Longrightarrow> sublist SYSTEM_PROMPT_BASE sp"
  "sublist SYSTEM_PROMPT_BASE (get_document_summary_prompt document_text)"
  "get_pre_visit_chat_prompt message se = Inr p \<Longrightarrow> sublist SYSTEM_PROMPT_BASE p"
  "get_post_visit_chat_prompt message su = Inr q \<Longrightarrow> sublist SYSTEM_PROMPT_BASE q"
proof -
  have body: "sublist SYSTEM_PROMPT_BASE (symptom_summary_body c)" for c
    unfolding symptom_summary_body_def by (rule sublist_lines, rule in_set_nth[of 0]) simp_all
  show "get_symptom_summary_prompt symptoms = Inr sp \<Longrightarrow> sublist SYSTEM_PROMPT_BASE sp"
    using body by (auto simp add: get_symptom_summary_prompt_def split: sum.splits)
  show "sublist SYSTEM_PROMPT_BASE (get_document_summary_prompt document_text)"
    unfolding get_document_summary_prompt_def
    by (rule sublist_lines, rule in_set_nth[of 0]) simp_all
  have pre: "sublist SYSTEM_PROMPT_BASE (pre_visit_body message c)" for c
    unfolding pre_visit_body_def by (rule sublist_lines, rule in_set_nth[of 0]) simp_all
  have post: "sublist SYSTEM_PROMPT_BASE (post_visit_body message c)" for c
    unfolding post_visit_body_def by (rule sublist_lines, rule in_set_nth[of 0]) simp_all
  show "get_pre_visit_chat_prompt message se = Inr p \<Longrightarrow> sublist SYSTEM_PROMPT_BASE p"
    using pre by (cases se) (auto split: if_splits scalar.splits sum.splits)
  show "get_post_visit_chat_prompt message su = Inr q \<Longrightarrow> sublist SYSTEM_PROMPT_BASE q"
    using post by (cases su) (auto split: if_splits sum.splits)
qed


text \<open>
  Claim C7 at the OCR clean-up prompt: for the sample text of 60 characters the prompt
  contains neither the medical disclaimer nor the system preamble.
\<close>

theorem ocr_prompt_lacks_disclaimer:
  "50 \<le> length sample_ocr_text
   \<and> \<not> sublist MEDICAL_DISCLAIMER (get_ocr_cleanup_prompt sample_ocr_text)
   \<and> \<not> sublist SYSTEM_PROMPT_BASE (get_ocr_cleanup_prompt sample_ocr_text)"
proof -
  have a: "73 \<in> set MEDICAL_DISCLAIMER"
    by (simp add: MEDICAL_DISCLAIMER_def lines_def asc_def nl_def)
  have b: "73 \<notin> set (get_ocr_cleanup_prompt sample_ocr_text)"
    by (simp add: get_ocr_cleanup_prompt_def sample_ocr_text_def lines_def asc_def nl_def)
  have c: "\<not> sublist MEDICAL_DISCLAIMER (get_ocr_cleanup_prompt sample_ocr_text)"
    using a b set_mono_sublist by blast
  then have "\<not> sublist SYSTEM_PROMPT_BASE (get_ocr_cleanup_prompt sample_ocr_text)"
    using disclaimer_in_base sublist_trans by blast
  moreover have "50 \<le> length sample_ocr_text"
    by (simp add: sample_ocr_text_def asc_def)
  ultimately show ?thesis using c by simp
qed

section \<open>The structured extractor on concrete replies\<close>

lemmas engine_defs = asc_def ci_def lower_def colon_space_def is_space_def any_def dot_def nl_def
  bullet_def group1_def strip_def line_end_def findall_def

lemma reply_summary:
  "search summary_re mild_cold_reply \<noteq> None
   \<and> strip (group1 (the (search summary_re mild_cold_reply))) = asc ''You have a mild cold.''"
  by (simp add: summary_re_def mild_cold_reply_def engine_defs)

lemma reply_meds:
  "search meds_re mild_cold_reply \<noteq> None
   \<and> findall med_entry_re (group1 (the (search meds_re mild_cold_reply))) = [asc ''Ibuprofen'']"
  by (simp add: meds_re_def med_entry_re_def mild_cold_reply_def engine_defs)

lemma reply_followups:
  "search followup_re mild_cold_reply \<noteq> None
   \<and> findall followup_item_re (group1 (the (search followup_re mild_cold_reply)))
       = [asc ''Rest for 3 days'']"
  by (simp add: followup_re_def followup_item_re_def mild_cold_reply_def engine_defs)

lemma reply_redflags:
  "search redflags_re mild_cold_reply \<noteq> None
   \<and> findall redflag_item_re (group1 (the (search redflags_re mild_cold_reply)))
       = [asc ''Fever above 103'' @ [176] @ asc ''F'']"
  by (simp add: redflags_re_def redflag_item_re_def mild_cold_reply_def engine_defs)

lemma foldl_medications:
  "foldl (\<lambda>res med. res\<lparr>ps_medications := ps_medications res @ [new_medication med]\<rparr>) r xs
     = r\<lparr>ps_medications := ps_medications r @ map new_medication xs\<rparr>"
  by (induction xs arbitrary: r) simp_all

lemma foldl_followUps:
  "foldl (\<lambda>res item. res\<lparr>ps_followUps := ps_followUps res @ [new_follow_up item]\<rparr>) r xs
     = r\<lparr>ps_followUps := ps_followUps r @ map new_follow_up xs\<rparr>"
  by (induction xs arbitrary: r) simp_all

lemma parse_patientSummary:
  "ps_patientSummary (parse_document_summary content)
     = (case search summary_re content of
          Some m \<Rightarrow> strip (group1 m)
        | None \<Rightarrow> take 1500 content)"
  by (simp add: parse_document_summary_def extract_summary_def extract_medications_def
      extract_followups_def extract_redflags_def foldl_medications foldl_followUps
      split: option.splits)

lemma parse_medications:
  "ps_medications (parse_document_summary content)
     = (case search meds_re content of
          Some m \<Rightarrow> map new_medication (findall med_entry_re (group1 m))
        | None \<Rightarrow> [])"
  by (simp add: parse_document_summary_def extract_summary_def extract_medications_def
      extract_followups_def extract_redflags_def foldl_medications foldl_followUps
      initial_result_def split: option.splits)

lemma parse_followUps:
  "ps_followUps (parse_document_summary content)
     = (case search followup_re content of
          Some m \<Rightarrow> map new_follow_up (findall followup_item_re (group1 m))
        | None \<Rightarrow> [])"
  by (simp add: parse_document_summary_def extract_summary_def extract_medications_def
      extract_followups_def extract_redflags_def foldl_medications foldl_followUps
      initial_result_def split: option.splits)

lemma parse_redFlags:
  "ps_redFlags (parse_document_summary content)
     = (case search redflags_re content of
          Some m \<Rightarrow> map strip (filter (\<lambda>item. strip item \<noteq> [])
                                 (findall redflag_item_re (group1 m)))
        | None \<Rightarrow> [])"
  by (simp add: parse_document_summary_def extract_summary_def extract_medications_def
      extract_followups_def extract_redflags_def foldl_medications foldl_followUps
      initial_result_def split: option.splits)

lemma strip_fever:
  "strip (asc ''Fever above 103'' @ 176 # asc ''F'') = asc ''Fever above 103'' @ 176 # asc ''F''"
  by (simp add: engine_defs)

lemma strip_ibuprofen: "strip (asc ''Ibuprofen'') = asc ''Ibuprofen''"
  by (simp add: engine_defs)

lemma strip_rest: "strip (asc ''Rest for 3 days'') = asc ''Rest for 3 days''"
  by (simp add: engine_defs)

text \<open>
  Claim C3. On the reply of the concrete scenario \<open>_parse_document_summary\<close> returns
  the patient summary \<open>You have a mild cold.\<close>, the one medication Ibuprofen with the
  placeholder dosage and timing and empty notes, the one follow-up \<open>Rest for 3 days\<close>
  with timing \<open>As scheduled\<close>, and the one red flag \<open>Fever above 103\<degree>F\<close>.
\<close>

theorem parse_mild_cold_reply:
  "parse_document_summary mild_cold_reply =
     \<lparr> ps_patientSummary = asc ''You have a mild cold.'',
       ps_medications =
         [ \<lparr> med_name = asc ''Ibuprofen'', med_dosage = asc ''As prescribed'',
             med_timing = asc ''Follow doctor instructions'', med_notes = [] \<rparr> ],
       ps_followUps =
         [ \<lparr> fu_action = asc ''Rest for 3 days'', fu_timing = asc ''As scheduled'' \<rparr> ],
       ps_redFlags = [ asc ''Fever above 103'' @ [176] @ asc ''F'' ] \<rparr>"
proof -
  have s: "ps_patientSummary (parse_document_summary mild_cold_reply)
             = asc ''You have a mild cold.''"
    using reply_summary by (auto simp add: parse_patientSummary)
  have m: "ps_medications (parse_document_summary mild_cold_reply)
             = [ \<lparr> med_name = asc ''Ibuprofen'', med_dosage = asc ''As prescribed'',
                   med_timing = asc ''Follow doctor instructions'', med_notes = [] \<rparr> ]"
    using reply_meds by (auto simp add: parse_medications new_medication_def strip_ibuprofen)
  have f: "ps_followUps (parse_document_summary mild_cold_reply)
             = [ \<lparr> fu_action = asc ''Rest for 3 days'', fu_timing = asc ''As scheduled'' \<rparr> ]"
    using reply_followups by (auto simp add: parse_followUps new_follow_up_def strip_rest)
  have nonempty: "asc ''Fever above 103'' @ 176 # asc ''F'' \<noteq> []"
    by (simp add: asc_def)
  have r: "ps_redFlags (parse_document_summary mild_cold_reply)
             = [ asc ''Fever above 103'' @ [176] @ asc ''F'' ]"
    using reply_redflags nonempty by (auto simp add: parse_redFlags strip_fever)
  show ?thesis
    by (rule parsed_summary.equality) (simp_all add: s m f r)
qed

section \<open>Sections that do not match\<close>









end
